theory Spec2Isabelle
  imports Complex_Main "HOL-Library.Sublist"
begin

section \<open>JavaScript strings\<close>

text \<open>
  A JavaScript string is modelled as a \<^typ>\<open>string\<close> holding its UTF-8 bytes.  The
  operations used by the program (\<open>split\<close>, \<open>join\<close>, \<open>includes\<close>, \<open>trim\<close>, comparison with
  the empty string) give the same answers on the UTF-8 bytes as on the code units, because no
  encoded character is a part of another one.
\<close>

definition ws1 :: "char \<Rightarrow> bool" where
  \<comment> \<open>TAB, LF, VT, FF, CR and the space\<close>
  "ws1 a = (a \<in> set [CHR 0x09, CHR 0x0A, CHR 0x0B, CHR 0x0C, CHR 0x0D, CHR 0x20])"

definition ws2 :: "char \<Rightarrow> char \<Rightarrow> bool" where
  \<comment> \<open>U+00A0\<close>
  "ws2 a b = (a = CHR 0xC2 \<and> b = CHR 0xA0)"

definition ws3 :: "char \<Rightarrow> char \<Rightarrow> char \<Rightarrow> bool" where
  \<comment> \<open>U+1680, U+2000..U+200A, U+2028, U+2029, U+202F, U+205F, U+3000, U+FEFF\<close>
  "ws3 a b c =
     ((a = CHR 0xE1 \<and> b = CHR 0x9A \<and> c = CHR 0x80) \<or>
      (a = CHR 0xE2 \<and> b = CHR 0x80 \<and>
         ((128::nat) \<le> of_char c \<and> of_char c \<le> (138::nat) \<or> c = CHR 0xA8 \<or> c = CHR 0xA9 \<or> c = CHR 0xAF)) \<or>
      (a = CHR 0xE2 \<and> b = CHR 0x81 \<and> c = CHR 0x9F) \<or>
      (a = CHR 0xE3 \<and> b = CHR 0x80 \<and> c = CHR 0x80) \<or>
      (a = CHR 0xEF \<and> b = CHR 0xBB \<and> c = CHR 0xBF))"

fun trimStart :: "string \<Rightarrow> string" where
  "trimStart (a # b # c # s) =
     (if ws1 a then trimStart (b # c # s)
      else if ws2 a b then trimStart (c # s)
      else if ws3 a b c then trimStart s
      else a # b # c # s)"
| "trimStart [a, b] = (if ws1 a then trimStart [b] else if ws2 a b then [] else [a, b])"
| "trimStart [a] = (if ws1 a then [] else [a])"
| "trimStart [] = []"

fun trimEnd :: "string \<Rightarrow> string" where
  "trimEnd [] = []"
| "trimEnd (a # s) = (if trimStart (a # s) = [] then [] else a # trimEnd s)"

definition js_trim :: "string \<Rightarrow> string" where
  \<comment> \<open>\<open>String.prototype.trim\<close>\<close>
  "js_trim s = trimEnd (trimStart s)"

fun js_split :: "char \<Rightarrow> string \<Rightarrow> string list" where
  \<comment> \<open>\<open>s.split(sep)\<close> for a separator of one character; the result is never empty\<close>
  "js_split sep [] = [[]]"
| "js_split sep (c # s) =
     (if c = sep then [] # js_split sep s
      else (case js_split sep s of [] \<Rightarrow> [[c]] | x # xs \<Rightarrow> (c # x) # xs))"

fun js_join :: "string \<Rightarrow> string list \<Rightarrow> string" where
  \<comment> \<open>\<open>xs.join(sep)\<close>\<close>
  "js_join sep [] = []"
| "js_join sep [x] = x"
| "js_join sep (x # y # ys) = x @ sep @ js_join sep (y # ys)"

fun js_includes :: "string \<Rightarrow> string \<Rightarrow> bool" where
  \<comment> \<open>\<open>s.includes(sub)\<close>\<close>
  "js_includes [] sub = (sub = [])"
| "js_includes (c # s) sub = (prefix sub (c # s) \<or> js_includes s sub)"

fun findIndex :: "('a \<Rightarrow> bool) \<Rightarrow> 'a list \<Rightarrow> nat option" where
  \<comment> \<open>\<open>xs.findIndex(p)\<close>, with \<open>None\<close> for \<open>-1\<close>\<close>
  "findIndex p [] = None"
| "findIndex p (x # xs) =
     (if p x then Some 0 else (case findIndex p xs of None \<Rightarrow> None | Some i \<Rightarrow> Some (Suc i)))"

definition newline :: string where
  "newline = [CHR 0x0A]"

function dec :: "nat \<Rightarrow> string" where
  \<comment> \<open>the decimal numeral of a number, as a template literal prints it\<close>
  "dec n = (if n < 10 then [char_of (48 + n)] else dec (n div 10) @ [char_of (48 + n mod 10)])"
  by pat_completeness auto
termination
  by (relation "measure (\<lambda>n. n)") auto

declare dec.simps [simp del]

section \<open>Data model (\<open>types/index.ts\<close>)\<close>

record SubtitleEntry =
  entry_id :: int
  startTime :: string
  endTime :: string
  entry_text :: string
  translatedText :: "string option"

datatype task_status = Idle | Translating | Completed

record TaskProgress =
  completed :: nat
  total :: nat
  tokens :: nat
  status :: task_status

record SingleTask =
  taskId :: string
  subtitle_entries :: "SubtitleEntry list"
  subtitle_filename :: string
  translation_progress :: TaskProgress
  index :: nat

text \<open>\<open>Partial<SingleTask['translation_progress']>\<close>: a field that is absent is \<open>None\<close>.\<close>

record ProgressUpdates =
  upd_completed :: "nat option"
  upd_total :: "nat option"
  upd_tokens :: "nat option"
  upd_status :: "task_status option"

record CurrentTranslationTask =
  c_taskId :: string
  c_subtitle_entries :: "SubtitleEntry list"
  c_subtitle_filename :: string
  c_translation_progress :: TaskProgress

record TranslationHistoryEntry =
  h_taskId :: string
  h_filename :: string
  completedCount :: nat
  totalTokens :: nat
  timestamp :: nat
  current_translation_task :: CurrentTranslationTask

record Term =
  original :: string
  translation :: string

text \<open>An \<open>Error\<close> object: its \<open>name\<close> and its \<open>message\<close>.\<close>

datatype jsError = JsError (err_name: string) (err_message: string)

section \<open>The task store (\<open>DataManager\<close>)\<close>

text \<open>
  The store holds the in-memory lists and, beside them, what was last written to the durable
  storage under the keys \<open>batch_tasks\<close> and \<open>translation_history\<close> (\<open>None\<close>: nothing written
  or the key removed).  A write to the durable storage may be rejected; the operations that
  write take the outcome of the write as their first argument (\<open>None\<close>: the write succeeds) and
  return the error they raise, if any, with the store they leave behind.
\<close>

record DataManager =
  batch_tasks :: "SingleTask list"
  translation_history :: "TranslationHistoryEntry list"
  stored_batch_tasks :: "SingleTask list option"
  stored_history :: "TranslationHistoryEntry list option"

definition isTranslated :: "SubtitleEntry \<Rightarrow> bool" where
  \<comment> \<open>\<open>entry.translatedText && entry.translatedText.trim() !== ''\<close>\<close>
  "isTranslated e = (case translatedText e of None \<Rightarrow> False | Some t \<Rightarrow> t \<noteq> [] \<and> js_trim t \<noteq> [])"

definition countTranslated :: "SubtitleEntry list \<Rightarrow> nat" where
  "countTranslated es = length (filter isTranslated es)"

definition getTaskById :: "DataManager \<Rightarrow> string \<Rightarrow> SingleTask option" where
  "getTaskById s tid = find (\<lambda>t. taskId t = tid) (batch_tasks s)"

definition replaceTask :: "DataManager \<Rightarrow> string \<Rightarrow> SingleTask \<Rightarrow> DataManager" where
  \<comment> \<open>\<open>taskIndex = tasks.findIndex(...); if (taskIndex !== -1) tasks[taskIndex] = updatedTask\<close>\<close>
  "replaceTask s tid t =
     (case findIndex (\<lambda>t. taskId t = tid) (batch_tasks s) of
        None \<Rightarrow> s
      | Some i \<Rightarrow> s\<lparr>batch_tasks := (batch_tasks s)[i := t]\<rparr>)"

definition persistBatchTasks :: "jsError option \<Rightarrow> DataManager \<Rightarrow> jsError option \<times> DataManager" where
  \<comment> \<open>\<open>await localforage.setItem(KEYS.BATCH_TASKS, memoryStore.batch_tasks)\<close>\<close>
  "persistBatchTasks w s =
     (case w of None \<Rightarrow> (None, s\<lparr>stored_batch_tasks := Some (batch_tasks s)\<rparr>) | Some e \<Rightarrow> (Some e, s))"

definition createNewTask ::
  "jsError option \<Rightarrow> string \<Rightarrow> DataManager \<Rightarrow> string \<Rightarrow> SubtitleEntry list \<Rightarrow> nat
     \<Rightarrow> jsError option \<times> DataManager" where
  \<comment> \<open>the second argument is the identifier that \<open>generateTaskId\<close> returns\<close>
  "createNewTask w newId s filename entries idx =
     persistBatchTasks w (s\<lparr>batch_tasks := batch_tasks s @
        [\<lparr>taskId = newId, subtitle_entries = entries, subtitle_filename = filename,
          translation_progress = \<lparr>completed = 0, total = length entries, tokens = 0, status = Idle\<rparr>,
          index = idx\<rparr>]\<rparr>)"

definition withEntries :: "SingleTask \<Rightarrow> SubtitleEntry list \<Rightarrow> SingleTask" where
  \<comment> \<open>the \<open>updatedTask\<close> of the entry updates: new entries, \<open>completed\<close> counted again\<close>
  "withEntries task updatedEntries =
     task\<lparr>subtitle_entries := updatedEntries,
          translation_progress := (translation_progress task)
            \<lparr>completed := countTranslated updatedEntries,
             total := (if total (translation_progress task) \<noteq> 0
                       then total (translation_progress task) else length updatedEntries)\<rparr>\<rparr>"

definition updateTaskSubtitleEntryInMemory ::
  "DataManager \<Rightarrow> string \<Rightarrow> int \<Rightarrow> string \<Rightarrow> string option \<Rightarrow> DataManager" where
  "updateTaskSubtitleEntryInMemory s tid entryId txt tr =
     (case getTaskById s tid of
        None \<Rightarrow> s
      | Some task \<Rightarrow>
          replaceTask s tid (withEntries task
            (map (\<lambda>entry. if entry_id entry = entryId
                    then entry\<lparr>entry_text := txt,
                               translatedText := (case tr of None \<Rightarrow> translatedText entry | Some v \<Rightarrow> Some v)\<rparr>
                    else entry)
               (subtitle_entries task))))"

record EntryUpdate =
  u_id :: int
  u_text :: string
  u_translatedText :: "string option"

definition batchUpdateTaskSubtitleEntries ::
  "DataManager \<Rightarrow> string \<Rightarrow> EntryUpdate list \<Rightarrow> DataManager" where
  "batchUpdateTaskSubtitleEntries s tid updates =
     (case getTaskById s tid of
        None \<Rightarrow> s
      | Some task \<Rightarrow>
          replaceTask s tid (withEntries task
            (map (\<lambda>entry. case find (\<lambda>u. u_id u = entry_id entry) updates of
                      None \<Rightarrow> entry
                    | Some u \<Rightarrow> entry\<lparr>entry_text := u_text u,
                         translatedText := (case u_translatedText u of
                                              None \<Rightarrow> translatedText entry | Some v \<Rightarrow> Some v)\<rparr>)
               (subtitle_entries task))))"

definition mergeProgress :: "TaskProgress \<Rightarrow> ProgressUpdates \<Rightarrow> TaskProgress" where
  \<comment> \<open>\<open>{ ...task.translation_progress, ...updates }\<close>\<close>
  "mergeProgress p u =
     \<lparr>completed = (case upd_completed u of None \<Rightarrow> completed p | Some v \<Rightarrow> v),
      total = (case upd_total u of None \<Rightarrow> total p | Some v \<Rightarrow> v),
      tokens = (case upd_tokens u of None \<Rightarrow> tokens p | Some v \<Rightarrow> v),
      status = (case upd_status u of None \<Rightarrow> status p | Some v \<Rightarrow> v)\<rparr>"

definition updateTaskTranslationProgressInMemory ::
  "DataManager \<Rightarrow> string \<Rightarrow> ProgressUpdates \<Rightarrow> DataManager" where
  "updateTaskTranslationProgressInMemory s tid updates =
     (case getTaskById s tid of
        None \<Rightarrow> s
      | Some task \<Rightarrow>
          replaceTask s tid
            (task\<lparr>translation_progress := mergeProgress (translation_progress task) updates\<rparr>))"

definition updateTaskTranslationProgress ::
  "jsError option \<Rightarrow> DataManager \<Rightarrow> string \<Rightarrow> ProgressUpdates \<Rightarrow> jsError option \<times> DataManager" where
  "updateTaskTranslationProgress w s tid updates =
     (case getTaskById s tid of
        None \<Rightarrow> (None, s)
      | Some task \<Rightarrow>
          persistBatchTasks w (replaceTask s tid
            (task\<lparr>translation_progress := mergeProgress (translation_progress task) updates\<rparr>)))"

definition completeTask ::
  "jsError option \<Rightarrow> DataManager \<Rightarrow> string \<Rightarrow> nat \<Rightarrow> jsError option \<times> DataManager" where
  "completeTask w s tid finalTokens =
     (case getTaskById s tid of
        None \<Rightarrow> (None, s)
      | Some task \<Rightarrow>
          persistBatchTasks w (replaceTask s tid
            (task\<lparr>translation_progress := (translation_progress task)
               \<lparr>completed := countTranslated (subtitle_entries task),
                total := total (translation_progress task),
                tokens := max finalTokens (tokens (translation_progress task)),
                status := Completed\<rparr>\<rparr>)))"

subsection \<open>The translation history\<close>

definition persistHistory :: "jsError option \<Rightarrow> DataManager \<Rightarrow> jsError option \<times> DataManager" where
  \<comment> \<open>\<open>await localforage.setItem(KEYS.HISTORY, updatedHistory)\<close>\<close>
  "persistHistory w s =
     (case w of None \<Rightarrow> (None, s\<lparr>stored_history := Some (translation_history s)\<rparr>) | Some e \<Rightarrow> (Some e, s))"

definition addHistory ::
  "TranslationHistoryEntry list \<Rightarrow> TranslationHistoryEntry \<Rightarrow> nat \<Rightarrow> TranslationHistoryEntry list" where
  \<comment> \<open>the \<open>updatedHistory\<close> of \<open>addHistoryEntry\<close>; the last argument is \<open>Date.now()\<close>\<close>
  "addHistory h entry now =
     (case findIndex (\<lambda>x. h_taskId x = h_taskId entry) h of
        Some existingIndex \<Rightarrow> h[existingIndex := entry\<lparr>timestamp := now\<rparr>]
      | None \<Rightarrow> entry\<lparr>timestamp := now\<rparr> # h)"

definition addHistoryEntry ::
  "jsError option \<Rightarrow> nat \<Rightarrow> DataManager \<Rightarrow> TranslationHistoryEntry \<Rightarrow> jsError option \<times> DataManager" where
  "addHistoryEntry w now s entry =
     persistHistory w (s\<lparr>translation_history := addHistory (translation_history s) entry now\<rparr>)"

definition deleteHistoryEntry ::
  "jsError option \<Rightarrow> DataManager \<Rightarrow> string \<Rightarrow> jsError option \<times> DataManager" where
  "deleteHistoryEntry w s tid =
     persistHistory w (s\<lparr>translation_history := filter (\<lambda>entry. h_taskId entry \<noteq> tid) (translation_history s)\<rparr>)"

definition clearHistory :: "jsError option \<Rightarrow> DataManager \<Rightarrow> jsError option \<times> DataManager" where
  \<comment> \<open>\<open>await localforage.removeItem(KEYS.HISTORY)\<close>\<close>
  "clearHistory w s =
     (case w of
        None \<Rightarrow> (None, s\<lparr>translation_history := [], stored_history := None\<rparr>)
      | Some e \<Rightarrow> (Some e, s\<lparr>translation_history := []\<rparr>))"

datatype historyOp =
    AddHistoryEntry TranslationHistoryEntry nat
  | DeleteHistoryEntry string
  | ClearHistory

fun historyStep :: "jsError option \<times> DataManager \<Rightarrow> (jsError option \<times> historyOp) \<Rightarrow> jsError option \<times> DataManager" where
  \<comment> \<open>one call, with the outcome of its write; the error of an earlier call is dropped by its caller\<close>
  "historyStep (_, s) (w, AddHistoryEntry entry now) = addHistoryEntry w now s entry"
| "historyStep (_, s) (w, DeleteHistoryEntry tid) = deleteHistoryEntry w s tid"
| "historyStep (_, s) (w, ClearHistory) = clearHistory w s"

definition historyIds :: "DataManager \<Rightarrow> string list" where
  "historyIds s = map h_taskId (translation_history s)"

subsection \<open>The progress invariant and sample data\<close>

definition progressInSync :: "SingleTask \<Rightarrow> bool" where
  \<comment> \<open>\<open>completed\<close> is the number of entries with a translation that is not blank\<close>
  "progressInSync t = (completed (translation_progress t) = countTranslated (subtitle_entries t))"

definition storeInSync :: "DataManager \<Rightarrow> bool" where
  "storeInSync s = list_all progressInSync (batch_tasks s)"

definition demoEntry :: "int \<Rightarrow> string \<Rightarrow> string option \<Rightarrow> SubtitleEntry" where
  "demoEntry i txt tr =
     \<lparr>entry_id = i, startTime = ''00:00:01,000'', endTime = ''00:00:02,000'',
      entry_text = txt, translatedText = tr\<rparr>"

definition demoTask :: "string \<Rightarrow> SubtitleEntry list \<Rightarrow> nat \<Rightarrow> SingleTask" where
  "demoTask tid es c =
     \<lparr>taskId = tid, subtitle_entries = es, subtitle_filename = ''a.srt'',
      translation_progress = \<lparr>completed = c, total = length es, tokens = 0, status = Idle\<rparr>,
      index = 0\<rparr>"

definition demoStore :: "SingleTask list \<Rightarrow> DataManager" where
  "demoStore ts =
     \<lparr>batch_tasks = ts, translation_history = [], stored_batch_tasks = Some ts, stored_history = None\<rparr>"

definition demoHistoryEntry :: "string \<Rightarrow> nat \<Rightarrow> TranslationHistoryEntry" where
  "demoHistoryEntry tid n =
     \<lparr>h_taskId = tid, h_filename = ''a.srt'', completedCount = n, totalTokens = 42, timestamp = 0,
      current_translation_task =
        \<lparr>c_taskId = tid, c_subtitle_entries = [], c_subtitle_filename = ''a.srt'',
         c_translation_progress = \<lparr>completed = n, total = n, tokens = 42, status = Completed\<rparr>\<rparr>\<rparr>"

section \<open>The platform\<close>

text \<open>
  The program uses functions that are not its own: the Unicode tables behind
  \<open>toLowerCase\<close> and behind the classes \<open>\p{L}\<close> and \<open>\p{N}\<close>, \<open>JSON.stringify\<close>, and the
  \<open>jsonrepair\<close> library followed by \<open>JSON.parse\<close>.  They are parameters of the model.  What the
  translation service answers, a \<open>Record<string, any>\<close> in the source, is read as a list of
  keys, in the order of \<open>Object.keys\<close>, each with an object of optional string fields.
\<close>

record LineResult =
  origin :: "string option"
  direct :: "string option"
  reflect :: "string option"
  free :: "string option"

type_synonym TranslationMap = "(string \<times> LineResult) list"

record platform =
  toLowerCase :: "string \<Rightarrow> string"
  removeNonLettersNumbers :: "string \<Rightarrow> string"
  jsonStringify :: "TranslationMap \<Rightarrow> string"
  jsonParse :: "string \<Rightarrow> jsError + TranslationMap"

section \<open>Terms (\<open>TermsContext\<close>)\<close>

definition cleanText :: "platform \<Rightarrow> string \<Rightarrow> string" where
  \<comment> \<open>\<open>text.toLowerCase().replace(/[^\p{L}\p{N}]/gu, '')\<close>\<close>
  "cleanText pf txt = removeNonLettersNumbers pf (toLowerCase pf txt)"

definition getRelevantTerms :: "platform \<Rightarrow> Term list \<Rightarrow> string \<Rightarrow> string \<Rightarrow> string \<Rightarrow> Term list" where
  "getRelevantTerms pf terms txt contextBefore contextAfter =
     (if length terms = 0 then []
      else
        let fullText = contextBefore @ '' '' @ txt @ '' '' @ contextAfter;
            cleanedFullText = cleanText pf fullText;
            processedTerms = map (\<lambda>t. (t, cleanText pf (original t))) terms
        in map (\<lambda>(t, cleanedOriginal). \<lparr>original = original t, translation = translation t\<rparr>)
             (filter (\<lambda>(t, cleanedOriginal). cleanedOriginal \<noteq> [] \<and> js_includes cleanedFullText cleanedOriginal)
                processedTerms))"

section \<open>Prompts (\<open>utils/translationPrompts\<close>)\<close>

definition generateSharedPrompt :: "string \<Rightarrow> string \<Rightarrow> string \<Rightarrow> string" where
  "generateSharedPrompt contextBefore contextAfter terms =
     js_join newline
       [''### Context Information'',
        ''<previous_content>'',
        contextBefore,
        ''</previous_content>'',
        '''',
        ''<subsequent_content>'',
        contextAfter,
        ''</subsequent_content>'',
        '''',
        ''### Terminology'',
        terms]"

definition lineArray :: "string \<Rightarrow> string list" where
  \<comment> \<open>\<open>lines.split('\n')\<close>\<close>
  "lineArray lines = js_split (CHR 0x0A) lines"

definition directJsonDict :: "string \<Rightarrow> TranslationMap" where
  \<comment> \<open>the \<open>jsonDict\<close> of \<open>generateDirectPrompt\<close>: key \<open>index + 1\<close> for the line at \<open>index\<close>\<close>
  "directJsonDict lines =
     map (\<lambda>(idx, line). (dec (idx + 1), \<lparr>origin = Some line, direct = Some [], reflect = None, free = None\<rparr>))
       (enumerate 0 (lineArray lines))"

definition generateDirectPrompt :: "platform \<Rightarrow> string \<Rightarrow> string \<Rightarrow> string \<Rightarrow> string \<Rightarrow> string" where
  "generateDirectPrompt pf lines sharedPrompt sourceLanguage targetLanguage =
     (let jsonFormat = jsonStringify pf (directJsonDict lines) in
      js_join newline
       [''## Role'',
        ''You are a professional Netflix subtitle translator, fluent in both '' @ sourceLanguage @ '' and '' @ targetLanguage @ '', as well as their respective cultures. '',
        ''Your expertise lies in accurately understanding the semantics and structure of '' @ ''the original '' @ sourceLanguage @ '' text and faithfully translating it into '' @ targetLanguage @ '' while preserving the original meaning.'',
        '''',
        ''## Task'',
        ''We have a segment of original '' @ sourceLanguage @ '' subtitles that need to be directly translated into '' @ targetLanguage @ ''. These subtitles come from a specific context and may contain specific themes '' @ ''and terminology.'',
        '''',
        ''1. Translate the original '' @ sourceLanguage @ '' subtitles into '' @ targetLanguage @ '' line by line'',
        ''2. Ensure the translation is faithful to the original, accurately conveying the '' @ ''original meaning'',
        ''3. Consider the context and professional terminology'',
        '''',
        sharedPrompt,
        '''',
        ''<translation_principles>'',
        ''1. Faithful to the original: Accurately convey the content and meaning of the '' @ ''original text, without arbitrarily changing, adding, or omitting content.'',
        ''2. Accurate terminology: Use professional terms correctly and maintain '' @ ''consistency in terminology.'',
        ''3. Understand the context: Fully comprehend and reflect the background and '' @ ''contextual relationships of the text.'',
        ''</translation_principles>'',
        '''',
        ''## INPUT'',
        ''<subtitles>'',
        lines,
        ''</subtitles>'',
        '''',
        ''## Output in only JSON format and no other text'',
        ''```json'',
        jsonFormat,
        ''```'',
        '''',
        ''Note: Start you answer with ```json and end with ```, do not add any other text.''])"

definition reflectionJsonDict :: "TranslationMap \<Rightarrow> TranslationMap" where
  \<comment> \<open>the \<open>jsonDict\<close> of \<open>generateReflectionPrompt\<close>\<close>
  "reflectionJsonDict directTranslations =
     map (\<lambda>(key, v). (key, \<lparr>origin = origin v, direct = direct v, reflect = Some [], free = Some []\<rparr>))
       directTranslations"

definition generateReflectionPrompt ::
  "platform \<Rightarrow> TranslationMap \<Rightarrow> string \<Rightarrow> string \<Rightarrow> string \<Rightarrow> string \<Rightarrow> string" where
  "generateReflectionPrompt pf directTranslations lines sharedPrompt sourceLanguage targetLanguage =
     (let jsonFormat = jsonStringify pf (reflectionJsonDict directTranslations) in
      js_join newline
       [''## Role'',
        ''You are a professional subtitle editor for '' @ targetLanguage @ ''.'',
        '''',
        ''## Your Task'',
        ''Critically review and refine the provided translation. Your revision must '' @ ''achieve three key goals:'',
        '''',
        ''1.  **Natural Word Order**: Adjust the sentence structure to be fluent and '' @ ''natural for a '' @ targetLanguage @ '' speaker.'',
        ''2.  **Strict Terminology**: You MUST use the exact translations provided in the '' @ ''`### Terminology` list. This is a mandatory rule.'',
        ''3.  **Contextual Accuracy**: Use the surrounding subtitles '' @ ''(`<previous_content>` and `<subsequent_content>`) to correct any logical errors '' @ ''or mistranslations.'',
        '''',
        ''## Process'',
        ''Directly provide the improved translation in the specified JSON format. Do not '' @ ''explain your thought process or add comments in the output. Your focus is the '' @ ''final, clean subtitle.'',
        '''',
        sharedPrompt,
        '''',
        ''## INPUT'',
        ''<subtitles>'',
        lines,
        ''</subtitles>'',
        '''',
        ''## Output Format'',
        ''Provide your response strictly in the following JSON format. Do not include any '' @ ''other text.'',
        ''```json'',
        jsonFormat,
        ''```'',
        '''',
        ''Note: Start your answer with ```json and end with ```.''])"

definition directTemplateFor :: "string list \<Rightarrow> TranslationMap" where
  \<comment> \<open>the template that \<open>translateBatch\<close> sends for \<open>texts\<close>: it passes \<open>texts.join('\n')\<close>\<close>
  "directTemplateFor texts = directJsonDict (js_join newline texts)"

section \<open>The translation client (\<open>TranslationContext\<close>)\<close>

record TranslationConfig =
  apiKey :: string
  baseURL :: string
  model :: string
  sourceLanguage :: string
  targetLanguage :: string
  contextBefore :: nat
  contextAfter :: nat
  batchSize :: nat
  threadCount :: nat
  rpm :: nat
  enableReflection :: bool

subsection \<open>The network, the cancellation signal and the session\<close>

text \<open>
  A call of \<open>fetch\<close> is rejected, or it answers with or without \<open>response.ok\<close>; reading the body
  with \<open>response.json()\<close> gives the fields that the program reads, or raises.  \<open>choices\<close> holds,
  for each choice, \<open>message?.content\<close>.  The answers of the network are given by the number of
  the call, and the values of \<open>signal.aborted\<close> by the number of the read.  The session state
  holds the key index (\<open>apiKeyIndexRef\<close>), the numbers of calls, reads and storage writes so far,
  and the events in the order they happen.
\<close>

datatype 'a bodyRead = Body 'a | BodyFails jsError

record Completion =
  usage_total_tokens :: "nat option"
  choices :: "string option list option"

datatype fetchOutcome =
    FetchRejects jsError
  | ResponseOk "Completion bodyRead"
  | ResponseNotOk nat "string option bodyRead"

datatype event =
    RateLimiterWait
  | FetchCall string string
  | Sleep nat

record session =
  apiKeyIndex :: nat
  fetchCount :: nat
  pollCount :: nat
  writeCount :: nat
  events :: "event list"

definition emit :: "event \<Rightarrow> session \<Rightarrow> session" where
  "emit ev w = w\<lparr>events := events w @ [ev]\<rparr>"

definition pollSignal :: "(nat \<Rightarrow> bool) option \<Rightarrow> session \<Rightarrow> bool \<times> session" where
  \<comment> \<open>\<open>signal?.aborted\<close>\<close>
  "pollSignal sig w =
     (case sig of None \<Rightarrow> (False, w) | Some f \<Rightarrow> (f (pollCount w), w\<lparr>pollCount := pollCount w + 1\<rparr>))"

definition cancelMark :: string where
  \<comment> \<open>the two characters that the \<open>catch\<close> blocks look for in a message\<close>
  "cancelMark = [CHR 0xE5, CHR 0x8F, CHR 0x96, CHR 0xE6, CHR 0xB6, CHR 0x88]"

definition cancelledError :: jsError where
  \<comment> \<open>\<open>new Error('...')\<close> raised when \<open>signal.aborted\<close> is read as true\<close>
  "cancelledError = JsError ''Error''
     [CHR 0xE7, CHR 0xBF, CHR 0xBB, CHR 0xE8, CHR 0xAF, CHR 0x91, CHR 0xE8, CHR 0xA2, CHR 0xAB,
      CHR 0xE5, CHR 0x8F, CHR 0x96, CHR 0xE6, CHR 0xB6, CHR 0x88]"

definition missingKeyError :: jsError where
  \<comment> \<open>raised by the guard \<open>if (!state.config.apiKey)\<close>\<close>
  "missingKeyError = JsError ''Error''
     ([CHR 0xE8, CHR 0xAF, CHR 0xB7, CHR 0xE5, CHR 0x85, CHR 0x88, CHR 0xE9, CHR 0x85, CHR 0x8D,
       CHR 0xE7, CHR 0xBD, CHR 0xAE] @ ''API'' @ [CHR 0xE5, CHR 0xAF, CHR 0x86, CHR 0xE9, CHR 0x92, CHR 0xA5])"

definition noValidKeyError :: jsError where
  \<comment> \<open>raised by \<open>getNextApiKey\<close>\<close>
  "noValidKeyError = JsError ''Error''
     ([CHR 0xE6, CHR 0x9C, CHR 0xAA, CHR 0xE9, CHR 0x85, CHR 0x8D, CHR 0xE7, CHR 0xBD, CHR 0xAE,
       CHR 0xE6, CHR 0x9C, CHR 0x89, CHR 0xE6, CHR 0x95, CHR 0x88, CHR 0xE7, CHR 0x9A, CHR 0x84]
      @ ''API'' @ [CHR 0xE5, CHR 0xAF, CHR 0x86, CHR 0xE9, CHR 0x92, CHR 0xA5])"

definition directFailedError :: jsError where
  \<comment> \<open>\<open>new Error('...')\<close> raised after the loop when there is no \<open>lastError\<close>\<close>
  "directFailedError = JsError ''Error''
     [CHR 0xE7, CHR 0x9B, CHR 0xB4, CHR 0xE8, CHR 0xAF, CHR 0x91, CHR 0xE5, CHR 0xA4, CHR 0xB1,
      CHR 0xE8, CHR 0xB4, CHR 0xA5]"

definition typeError :: jsError where
  \<comment> \<open>raised by \<open>data.choices[0]\<close> when \<open>choices\<close> is missing; the text depends on the engine\<close>
  "typeError = JsError ''TypeError'' ''Cannot read properties of undefined''"

definition isCancellation :: "jsError \<Rightarrow> bool" where
  \<comment> \<open>\<open>error.name === 'AbortError' || error.message?.includes('...')\<close>\<close>
  "isCancellation e = (err_name e = ''AbortError'' \<or> js_includes (err_message e) cancelMark)"

definition validApiKeys :: "string \<Rightarrow> string list" where
  \<comment> \<open>\<open>apiKeyStr.split('|').map(key => key.trim()).filter(key => key.length > 0)\<close>\<close>
  "validApiKeys apiKeyStr = filter (\<lambda>key. length key > 0) (map js_trim (js_split (CHR ''|'') apiKeyStr))"

definition getNextApiKey :: "string \<Rightarrow> session \<Rightarrow> (jsError + string option) \<times> session" where
  \<comment> \<open>the key is \<open>None\<close> when \<open>apiKeys[currentIndex]\<close> is \<open>undefined\<close>\<close>
  "getNextApiKey apiKeyStr w =
     (let apiKeys = validApiKeys apiKeyStr in
      if length apiKeys = 0 then (Inl noValidKeyError, w)
      else
        let currentIndex = apiKeyIndex w;
            nextIndex = (currentIndex + 1) mod length apiKeys
        in (Inr (if currentIndex < length apiKeys then Some (apiKeys ! currentIndex) else None),
            w\<lparr>apiKeyIndex := nextIndex\<rparr>))"

definition bearer :: "string option \<Rightarrow> string" where
  \<comment> \<open>the \<open>Authorization\<close> header\<close>
  "bearer key = ''Bearer '' @ (case key of None \<Rightarrow> ''undefined'' | Some k \<Rightarrow> k)"

definition fetch :: "(nat \<Rightarrow> fetchOutcome) \<Rightarrow> string option \<Rightarrow> string \<Rightarrow> session \<Rightarrow> fetchOutcome \<times> session" where
  \<comment> \<open>\<open>fetch(baseURL + '/chat/completions', ...)\<close> with a key and a prompt\<close>
  "fetch net key prompt w =
     (net (fetchCount w), (emit (FetchCall (bearer key) prompt) w)\<lparr>fetchCount := fetchCount w + 1\<rparr>)"

definition httpError :: "nat \<Rightarrow> string option \<Rightarrow> jsError" where
  \<comment> \<open>\<open>new Error(errorData.error?.message || `HTTP ${response.status}`)\<close>\<close>
  "httpError st msg =
     JsError ''Error'' (case msg of None \<Rightarrow> ''HTTP '' @ dec st
                        | Some m \<Rightarrow> if m = [] then ''HTTP '' @ dec st else m)"

definition firstContent :: "string option list \<Rightarrow> string" where
  \<comment> \<open>\<open>data.choices[0]?.message?.content || ''\<close>\<close>
  "firstContent cs = (case cs of [] \<Rightarrow> [] | c # _ \<Rightarrow> (case c of None \<Rightarrow> [] | Some s \<Rightarrow> s))"

definition usedTokens :: "Completion \<Rightarrow> nat" where
  \<comment> \<open>\<open>data.usage?.total_tokens || 0\<close>\<close>
  "usedTokens d = (case usage_total_tokens d of None \<Rightarrow> 0 | Some n \<Rightarrow> n)"

subsection \<open>\<open>testConnection\<close>\<close>

definition testConnection ::
  "(nat \<Rightarrow> fetchOutcome) \<Rightarrow> TranslationConfig \<Rightarrow> session \<Rightarrow> (jsError + bool) \<times> session" where
  "testConnection net cfg w =
     (if apiKey cfg = [] then (Inl missingKeyError, w)
      else
        case getNextApiKey (apiKey cfg) w of
          (Inl e, w1) \<Rightarrow> (Inl e, w1)
        | (Inr key, w1) \<Rightarrow>
            (case fetch net key ''Hello'' w1 of
               (FetchRejects e, w2) \<Rightarrow> (Inl e, w2)
             | (ResponseNotOk st (BodyFails e), w2) \<Rightarrow> (Inl e, w2)
             | (ResponseNotOk st (Body msg), w2) \<Rightarrow> (Inl (httpError st msg), w2)
             | (ResponseOk _, w2) \<Rightarrow> (Inr True, w2)))"

subsection \<open>\<open>translateBatch\<close>: the direct pass\<close>

datatype attempt =
    Succeeded (tokensAfter: nat) (parsed: TranslationMap)
  | Failed (tokensAfter: nat) (raised: jsError)

definition directResponse :: "platform \<Rightarrow> fetchOutcome \<Rightarrow> nat \<Rightarrow> attempt" where
  \<comment> \<open>what the \<open>try\<close> block does with the answer of \<open>fetch\<close>; the number is \<open>totalTokensUsed\<close>\<close>
  "directResponse pf outcome tok =
     (case outcome of
        FetchRejects e \<Rightarrow> Failed tok e
      | ResponseNotOk st (BodyFails e) \<Rightarrow> Failed tok e
      | ResponseNotOk st (Body msg) \<Rightarrow> Failed tok (httpError st msg)
      | ResponseOk (BodyFails e) \<Rightarrow> Failed tok e
      | ResponseOk (Body d) \<Rightarrow>
          (case choices d of
             None \<Rightarrow> Failed (tok + usedTokens d) typeError
           | Some cs \<Rightarrow>
               (case jsonParse pf (firstContent cs) of
                  Inl e \<Rightarrow> Failed (tok + usedTokens d) e
                | Inr r \<Rightarrow> Succeeded (tok + usedTokens d) r)))"

definition directAttempt ::
  "platform \<Rightarrow> (nat \<Rightarrow> fetchOutcome) \<Rightarrow> TranslationConfig \<Rightarrow> (nat \<Rightarrow> bool) option \<Rightarrow> string
     \<Rightarrow> nat \<Rightarrow> session \<Rightarrow> attempt \<times> session" where
  \<comment> \<open>the \<open>try\<close> block of one attempt\<close>
  "directAttempt pf net cfg sig directPrompt tok w =
     (case pollSignal sig (emit RateLimiterWait w) of
        (True, w1) \<Rightarrow> (Failed tok cancelledError, w1)
      | (False, w1) \<Rightarrow>
          (case getNextApiKey (apiKey cfg) w1 of
             (Inl e, w2) \<Rightarrow> (Failed tok e, w2)
           | (Inr key, w2) \<Rightarrow>
               (case fetch net key directPrompt w2 of
                  (outcome, w3) \<Rightarrow> (directResponse pf outcome tok, w3))))"

function directLoop ::
  "platform \<Rightarrow> (nat \<Rightarrow> fetchOutcome) \<Rightarrow> TranslationConfig \<Rightarrow> (nat \<Rightarrow> bool) option \<Rightarrow> string
     \<Rightarrow> nat \<Rightarrow> nat \<Rightarrow> jsError option \<Rightarrow> nat \<Rightarrow> session
     \<Rightarrow> (jsError + jsError option \<times> nat \<times> TranslationMap) \<times> session" where
  \<comment> \<open>\<open>for (let attempt = 1; attempt <= maxRetries; attempt++)\<close>; the result is a raised error,
      or \<open>lastError\<close>, \<open>totalTokensUsed\<close> and \<open>directResult\<close> when the loop is left\<close>
  "directLoop pf net cfg sig directPrompt maxRetries attempt lastError tok w =
     (if maxRetries < attempt then (Inr (lastError, tok, []), w)
      else
        case pollSignal sig w of
          (True, w1) \<Rightarrow> (Inl cancelledError, w1)
        | (False, w1) \<Rightarrow>
            (case directAttempt pf net cfg sig directPrompt tok w1 of
               (Succeeded tok' r, w2) \<Rightarrow> (Inr (lastError, tok', r), w2)
             | (Failed tok' e, w2) \<Rightarrow>
                 if isCancellation e then (Inl e, w2)
                 else directLoop pf net cfg sig directPrompt maxRetries (attempt + 1) (Some e) tok'
                        (if attempt < maxRetries then emit (Sleep (1000 * attempt)) w2 else w2)))"
  by pat_completeness auto
termination
  by (relation "measure (\<lambda>(pf, net, cfg, sig, directPrompt, maxRetries, attempt, lastError, tok, w).
        maxRetries + 1 - attempt)") auto

declare directLoop.simps [simp del]

subsection \<open>\<open>translateBatch\<close>: the reflection pass and the whole\<close>

record BatchResult =
  result_translations :: TranslationMap
  tokensUsed :: nat

definition truthy :: "string option \<Rightarrow> bool" where
  "truthy v = (case v of None \<Rightarrow> False | Some s \<Rightarrow> s \<noteq> [])"

definition formattedResult :: "TranslationMap \<Rightarrow> TranslationMap" where
  \<comment> \<open>\<open>{ origin: r[key].origin, direct: r[key].free || r[key].direct }\<close> for every key\<close>
  "formattedResult reflectionResult =
     map (\<lambda>(key, v). (key, \<lparr>origin = origin v, direct = (if truthy (free v) then free v else direct v),
                              reflect = None, free = None\<rparr>))
       reflectionResult"

definition reflectionCatch :: "jsError \<Rightarrow> TranslationMap \<Rightarrow> nat \<Rightarrow> jsError + BatchResult" where
  \<comment> \<open>the outer \<open>catch\<close> of the reflection pass\<close>
  "reflectionCatch e directResult tok =
     (if isCancellation e then Inl e else Inr \<lparr>result_translations = directResult, tokensUsed = tok\<rparr>)"

definition reflectionResponse ::
  "platform \<Rightarrow> fetchOutcome \<Rightarrow> TranslationMap \<Rightarrow> nat \<Rightarrow> jsError + BatchResult" where
  "reflectionResponse pf outcome directResult tok =
     (case outcome of
        FetchRejects e \<Rightarrow> reflectionCatch e directResult tok
      | ResponseNotOk st (BodyFails e) \<Rightarrow> reflectionCatch e directResult tok
      | ResponseNotOk st (Body msg) \<Rightarrow> Inr \<lparr>result_translations = directResult, tokensUsed = tok\<rparr>
      | ResponseOk (BodyFails e) \<Rightarrow> reflectionCatch e directResult tok
      | ResponseOk (Body d) \<Rightarrow>
          (case choices d of
             None \<Rightarrow> reflectionCatch typeError directResult (tok + usedTokens d)
           | Some cs \<Rightarrow>
               (case jsonParse pf (firstContent cs) of
                  Inl jsonError \<Rightarrow> Inr \<lparr>result_translations = directResult, tokensUsed = tok + usedTokens d\<rparr>
                | Inr reflectionResult \<Rightarrow>
                    Inr \<lparr>result_translations = formattedResult reflectionResult,
                         tokensUsed = tok + usedTokens d\<rparr>)))"

definition reflectionPass ::
  "platform \<Rightarrow> (nat \<Rightarrow> fetchOutcome) \<Rightarrow> TranslationConfig \<Rightarrow> (nat \<Rightarrow> bool) option
     \<Rightarrow> TranslationMap \<Rightarrow> string \<Rightarrow> string \<Rightarrow> nat \<Rightarrow> session \<Rightarrow> (jsError + BatchResult) \<times> session" where
  "reflectionPass pf net cfg sig directResult textToTranslate sharedPrompt tok w =
     (case pollSignal sig w of
        (True, w1) \<Rightarrow> (reflectionCatch cancelledError directResult tok, w1)
      | (False, w1) \<Rightarrow>
          (let reflectionPrompt = generateReflectionPrompt pf directResult textToTranslate sharedPrompt
                 (sourceLanguage cfg) (targetLanguage cfg)
           in case pollSignal sig (emit RateLimiterWait w1) of
                (True, w2) \<Rightarrow> (reflectionCatch cancelledError directResult tok, w2)
              | (False, w2) \<Rightarrow>
                  (case getNextApiKey (apiKey cfg) w2 of
                     (Inl e, w3) \<Rightarrow> (reflectionCatch e directResult tok, w3)
                   | (Inr key, w3) \<Rightarrow>
                       (case fetch net key reflectionPrompt w3 of
                          (outcome, w4) \<Rightarrow> (reflectionResponse pf outcome directResult tok, w4)))))"

definition translateBatch ::
  "platform \<Rightarrow> (nat \<Rightarrow> fetchOutcome) \<Rightarrow> TranslationConfig \<Rightarrow> (nat \<Rightarrow> bool) option
     \<Rightarrow> string list \<Rightarrow> string \<Rightarrow> string \<Rightarrow> string \<Rightarrow> nat \<Rightarrow> session
     \<Rightarrow> (jsError + BatchResult) \<times> session" where
  "translateBatch pf net cfg sig texts ctxBefore ctxAfter terms maxRetries w =
     (if apiKey cfg = [] then (Inl missingKeyError, w)
      else
        let textToTranslate = js_join newline texts;
            sharedPrompt = generateSharedPrompt ctxBefore ctxAfter terms;
            directPrompt = generateDirectPrompt pf textToTranslate sharedPrompt
                             (sourceLanguage cfg) (targetLanguage cfg)
        in case directLoop pf net cfg sig directPrompt maxRetries 1 None 0 w of
             (Inl e, w1) \<Rightarrow> (Inl e, w1)
           | (Inr (lastError, tok, directResult), w1) \<Rightarrow>
               if directResult = []
               then (Inl (case lastError of None \<Rightarrow> directFailedError | Some e \<Rightarrow> e), w1)
               else if enableReflection cfg
               then reflectionPass pf net cfg sig directResult textToTranslate sharedPrompt tok w1
               else (Inr \<lparr>result_translations = directResult, tokensUsed = tok\<rparr>, w1))"

definition defaultMaxRetries :: nat where
  \<comment> \<open>the default of the parameter \<open>maxRetries\<close>; no caller passes another value\<close>
  "defaultMaxRetries = 5"


section \<open>The batch orchestrator (\<open>TranslationControls.onStartTranslation\<close>)\<close>

text \<open>
  The run of the component \<open>TranslationControls\<close>.  It filters the entries of every batch and
  starts its loop at the batch index \<open>floor(completed / batchSize)\<close>.  \<open>MainApp\<close> imports the
  component and does not render it; the run of the list of files that it renders is in the next
  section.
\<close>

subsection \<open>\<open>parseInt\<close>\<close>

definition digitValue :: "char \<Rightarrow> nat option" where
  "digitValue c =
     (let n = of_char c :: nat in
      if 48 \<le> n \<and> n \<le> 57 then Some (n - 48)
      else if 97 \<le> n \<and> n \<le> 122 then Some (n - 87)
      else if 65 \<le> n \<and> n \<le> 90 then Some (n - 55)
      else None)"

fun radixDigits :: "nat \<Rightarrow> string \<Rightarrow> nat list" where
  \<comment> \<open>the longest prefix of digits of the radix\<close>
  "radixDigits r [] = []"
| "radixDigits r (c # s) =
     (case digitValue c of None \<Rightarrow> [] | Some d \<Rightarrow> if d < r then d # radixDigits r s else [])"

definition parseInt :: "string \<Rightarrow> int option" where
  \<comment> \<open>\<open>parseInt(str)\<close>, with \<open>None\<close> for \<open>NaN\<close>\<close>
  "parseInt str =
     (let s = trimStart str;
          negative = (case s of [] \<Rightarrow> False | c # _ \<Rightarrow> c = CHR ''-'');
          s1 = (case s of [] \<Rightarrow> [] | c # r \<Rightarrow> if c = CHR ''-'' \<or> c = CHR ''+'' then r else s);
          hex = (case s1 of a # b # _ \<Rightarrow> a = CHR ''0'' \<and> (b = CHR ''x'' \<or> b = CHR ''X'') | _ \<Rightarrow> False);
          radix = (if hex then 16 else 10);
          ds = radixDigits radix (if hex then drop 2 s1 else s1)
      in if ds = [] then None
         else Some ((if negative then - 1 else 1) * int (foldl (\<lambda>acc d. acc * radix + d) 0 ds)))"

subsection \<open>The plan of a run\<close>

text \<open>
  What the callback has captured when it is called: the entries, the file name and the task of
  the first file of \<open>SubtitleContext\<close> (the task that \<open>updateEntry\<close> writes to), and the
  configuration, the task identifier and the token counter of \<open>TranslationContext\<close>, and the
  terms of \<open>TermsContext\<close>.  They are constants of the run: the contexts build new values on
  every update and do not change the captured ones.
\<close>

record closure =
  cl_entries :: "SubtitleEntry list"
  cl_filename :: string
  cl_fileTaskId :: string
  cl_config :: TranslationConfig
  cl_currentTaskId :: string
  cl_tokensUsed :: nat
  cl_terms :: "Term list"

text \<open>
  What the run meets: the network, the signal of the controller, the outcome of each write to
  the durable storage, the identifier that \<open>generateTaskId\<close> returns and the clock.
\<close>

record environment =
  env_net :: "nat \<Rightarrow> fetchOutcome"
  env_signal :: "nat \<Rightarrow> bool"
  env_storage :: "nat \<Rightarrow> jsError option"
  env_newTaskId :: string
  env_now :: nat

record Batch =
  batchIndex :: nat
  untranslatedEntries :: "SubtitleEntry list"
  textsToTranslate :: "string list"
  contextBeforeTexts :: string
  contextAfterTexts :: string
  termsText :: string

definition slice :: "'a list \<Rightarrow> nat \<Rightarrow> nat \<Rightarrow> 'a list" where
  \<comment> \<open>\<open>xs.slice(a, b)\<close> for indices that are not negative\<close>
  "slice xs a b = take (b - a) (drop a xs)"

definition totalBatches :: "SubtitleEntry list \<Rightarrow> nat \<Rightarrow> nat" where
  \<comment> \<open>\<open>Math.ceil(entries.length / batchSize)\<close>, for a batch size that is not zero\<close>
  "totalBatches es bs = nat \<lceil>real (length es) / real bs\<rceil>"

definition startBatchIndex :: "SubtitleEntry list \<Rightarrow> nat \<Rightarrow> nat" where
  \<comment> \<open>\<open>Math.floor(initialProgress.completed / batchSize)\<close>\<close>
  "startBatchIndex es bs = countTranslated es div bs"

definition batchLoopIndices :: "SubtitleEntry list \<Rightarrow> nat \<Rightarrow> nat list" where
  \<comment> \<open>the values of \<open>batchIndex\<close> in the loop that builds \<open>allBatches\<close>; with a batch size of zero
      the bounds are \<open>NaN\<close> or \<open>Infinity\<close> and the loop has no iteration\<close>
  "batchLoopIndices es bs = (if bs = 0 then [] else [startBatchIndex es bs ..< totalBatches es bs])"

definition needsTranslation :: "SubtitleEntry \<Rightarrow> bool" where
  \<comment> \<open>\<open>!entry.translatedText || !entry.translatedText.trim()\<close>\<close>
  "needsTranslation e = (case translatedText e of None \<Rightarrow> True | Some t \<Rightarrow> t = [] \<or> js_trim t = [])"

definition makeBatch :: "platform \<Rightarrow> closure \<Rightarrow> nat \<Rightarrow> Batch option" where
  \<comment> \<open>the body of the loop; \<open>None\<close> is \<open>continue\<close>\<close>
  "makeBatch pf cl bi =
     (let es = cl_entries cl;
          bs = batchSize (cl_config cl);
          startIdx = bi * bs;
          endIdx = min (startIdx + bs) (length es);
          batchEntries = slice es startIdx endIdx;
          untranslated = filter needsTranslation batchEntries
      in if length untranslated = 0 then None
         else
           let ctxBefore = js_join newline (map entry_text
                          (slice es (startIdx - contextBefore (cl_config cl)) startIdx));
               ctxAfter = js_join newline (map entry_text
                          (slice es endIdx (min (length es) (endIdx + contextAfter (cl_config cl)))));
               batchText = js_join '' '' (map entry_text untranslated);
               relevantTerms = getRelevantTerms pf (cl_terms cl) batchText ctxBefore ctxAfter
           in Some \<lparr>batchIndex = bi, untranslatedEntries = untranslated,
                    textsToTranslate = map entry_text untranslated,
                    contextBeforeTexts = ctxBefore, contextAfterTexts = ctxAfter,
                    termsText = js_join newline
                      (map (\<lambda>t. original t @ '' -> '' @ translation t) relevantTerms)\<rparr>)"

definition allBatches :: "platform \<Rightarrow> closure \<Rightarrow> Batch list" where
  "allBatches pf cl =
     List.map_filter (makeBatch pf cl) (batchLoopIndices (cl_entries cl) (batchSize (cl_config cl)))"

subsection \<open>A run\<close>

definition batchUpdates :: "Batch \<Rightarrow> TranslationMap \<Rightarrow> EntryUpdate list" where
  \<comment> \<open>the loop over \<open>Object.entries(translationResult.translations)\<close>\<close>
  "batchUpdates batch trs =
     List.map_filter
       (\<lambda>(key, v).
           case parseInt key of
             None \<Rightarrow> None
           | Some n \<Rightarrow>
               let resultIndex = n - 1 in
               if 0 \<le> resultIndex \<and> nat resultIndex < length (untranslatedEntries batch) \<and> truthy (direct v)
               then Some \<lparr>u_id = entry_id (untranslatedEntries batch ! nat resultIndex),
                         u_text = entry_text (untranslatedEntries batch ! nat resultIndex),
                         u_translatedText = direct v\<rparr>
               else None)
       trs"

datatype phase = Direct | Done

definition updateProgress ::
  "DataManager \<Rightarrow> nat \<Rightarrow> nat \<Rightarrow> phase \<Rightarrow> string \<Rightarrow> string \<Rightarrow> nat option \<Rightarrow> DataManager" where
  \<comment> \<open>\<open>updateProgress(current, total, phase, status, taskId, newTokens)\<close>, as far as it
      changes the store; the sixth argument is \<open>currentTaskId\<close> of the context\<close>
  "updateProgress s current tot ph tid ctxTaskId newTokens =
     (let actualTaskId = (if tid \<noteq> [] then tid else ctxTaskId) in
      if actualTaskId \<noteq> []
      then updateTaskTranslationProgressInMemory s actualTaskId
             \<lparr>upd_completed = Some current, upd_total = Some tot, upd_tokens = newTokens,
              upd_status = Some (if ph = Done then Completed else Translating)\<rparr>
      else s)"

definition storageWrite :: "environment \<Rightarrow> session \<Rightarrow> jsError option \<times> session" where
  "storageWrite env w = (env_storage env (writeCount w), w\<lparr>writeCount := writeCount w + 1\<rparr>)"

definition completeTranslation :: "environment \<Rightarrow> string \<Rightarrow> DataManager \<times> session \<Rightarrow> DataManager \<times> session" where
  \<comment> \<open>the update in memory, and the write that the timer of 200 ms starts; its error is logged\<close>
  "completeTranslation env tid sw =
     (case sw of (s, w) \<Rightarrow>
        (case getTaskById s tid of
           None \<Rightarrow> (s, w)
         | Some task \<Rightarrow>
             let u = \<lparr>upd_completed = None, upd_total = None,
                      upd_tokens = Some (tokens (translation_progress task)),
                      upd_status = Some Completed\<rparr>;
                 s1 = updateTaskTranslationProgressInMemory s tid u
             in (case storageWrite env w of
                   (wr, w1) \<Rightarrow> (snd (updateTaskTranslationProgress wr s1 tid u), w1))))"

definition runBatch ::
  "platform \<Rightarrow> environment \<Rightarrow> closure \<Rightarrow> Batch \<Rightarrow> nat \<times> DataManager \<times> session
     \<Rightarrow> nat \<times> DataManager \<times> session" where
  \<comment> \<open>the work on one batch; the number is \<open>currentCompletedCount\<close>\<close>
  "runBatch pf env cl batch st =
     (case st of (cnt, s, w) \<Rightarrow>
        (case translateBatch pf (env_net env) (cl_config cl) (Some (env_signal env))
                (textsToTranslate batch) (contextBeforeTexts batch) (contextAfterTexts batch)
                (termsText batch) defaultMaxRetries w of
           (Inl e, w1) \<Rightarrow> (cnt, s, w1)
         | (Inr translationResult, w1) \<Rightarrow>
             let ups = batchUpdates batch (result_translations translationResult);
                 cnt1 = cnt + length ups
             in if length ups > 0
                then
                  let s1 = batchUpdateTaskSubtitleEntries s (env_newTaskId env) ups;
                      s2 = foldl (\<lambda>st u. updateTaskSubtitleEntryInMemory st (cl_fileTaskId cl)
                                            (u_id u) (u_text u) (u_translatedText u)) s1 ups;
                      s3 = updateProgress s2 cnt1 (length (cl_entries cl)) Direct
                             (env_newTaskId env) (cl_currentTaskId cl) None
                  in (cnt1, s3, w1)
                else (cnt1, s, w1)))"

function batchGroups :: "nat \<Rightarrow> 'a list \<Rightarrow> 'a list list" where
  \<comment> \<open>\<open>allBatches.slice(i, i + threadCount)\<close> for \<open>i = 0, threadCount, ...\<close>\<close>
  "batchGroups n xs = (if n = 0 \<or> xs = [] then [] else take n xs # batchGroups n (drop n xs))"
  by pat_completeness auto
termination
  by (relation "measure (\<lambda>(n, xs). length xs)") auto

declare batchGroups.simps [simp del]

definition historyEntryOf :: "closure \<Rightarrow> SingleTask \<Rightarrow> TranslationHistoryEntry" where
  \<comment> \<open>the argument of \<open>addHistoryEntry\<close>; the time stamp is set by \<open>addHistoryEntry\<close>\<close>
  "historyEntryOf cl currentTask =
     \<lparr>h_taskId = taskId currentTask, h_filename = cl_filename cl,
      completedCount = countTranslated (subtitle_entries currentTask),
      totalTokens = (if tokens (translation_progress currentTask) \<noteq> 0
                     then tokens (translation_progress currentTask) else cl_tokensUsed cl),
      timestamp = 0,
      current_translation_task =
        \<lparr>c_taskId = taskId currentTask, c_subtitle_entries = subtitle_entries currentTask,
         c_subtitle_filename = subtitle_filename currentTask,
         c_translation_progress = translation_progress currentTask\<rparr>\<rparr>"

definition saveHistory :: "environment \<Rightarrow> closure \<Rightarrow> DataManager \<times> session \<Rightarrow> DataManager \<times> session" where
  \<comment> \<open>the last \<open>try\<close> block of the run\<close>
  "saveHistory env cl sw =
     (case sw of (s, w) \<Rightarrow>
        (case getTaskById s (env_newTaskId env) of
           None \<Rightarrow> (s, w)
         | Some currentTask \<Rightarrow>
             if countTranslated (subtitle_entries currentTask) > 0
             then (case storageWrite env w of
                     (wr, w1) \<Rightarrow> (snd (addHistoryEntry wr (env_now env) s (historyEntryOf cl currentTask)), w1))
             else (s, w)))"

text \<open>
  The run.  The batches of a group are started together and the run waits for all of them;
  the model runs them one after the other, in their order.  With a thread count of zero and
  a batch to run, the loop over the groups never ends: the run is \<open>None\<close>.  Toasts and the
  state of the React contexts are left out.
\<close>

definition onStartTranslation ::
  "platform \<Rightarrow> environment \<Rightarrow> closure \<Rightarrow> DataManager \<times> session \<Rightarrow> (DataManager \<times> session) option" where
  "onStartTranslation pf env cl sw =
     (case sw of (s, w) \<Rightarrow>
        if length (cl_entries cl) = 0 then Some (s, w)
        else if apiKey (cl_config cl) = [] then Some (s, w)
        else
          (case storageWrite env w of
             (wr, w1) \<Rightarrow>
               (case createNewTask wr (env_newTaskId env) s (cl_filename cl) (cl_entries cl) 0 of
                  (Some e, s1) \<Rightarrow> Some (s1, w1)
                | (None, s1) \<Rightarrow>
                    let tot = length (cl_entries cl);
                        initialCompleted = countTranslated (cl_entries cl);
                        s2 = updateProgress s1 initialCompleted tot Direct
                               (env_newTaskId env) (cl_currentTaskId cl) None;
                        batches = allBatches pf cl
                    in if threadCount (cl_config cl) = 0 \<and> batches \<noteq> [] then None
                       else
                         (case foldl (\<lambda>st group. foldl (\<lambda>st batch. runBatch pf env cl batch st) st group)
                                 (initialCompleted, s2, w1)
                                 (batchGroups (threadCount (cl_config cl)) batches) of
                            (cnt, s3, w3) \<Rightarrow>
                              let finalCompleted = countTranslated (cl_entries cl);
                                  s4 = updateProgress s3 finalCompleted tot Done
                                         (env_newTaskId env) (cl_currentTaskId cl) None
                              in (case completeTranslation env (env_newTaskId env) (s4, emit (Sleep 100) w3) of
                                    (s5, w5) \<Rightarrow> Some (saveHistory env cl (s5, emit (Sleep 500) w5)))))))"

definition fetchCalls :: "session \<Rightarrow> event list" where
  "fetchCalls w = filter (\<lambda>ev. case ev of FetchCall _ _ \<Rightarrow> True | _ \<Rightarrow> False) (events w)"

section \<open>The orchestrator of a file (\<open>SubtitleFileList.handleStartTranslation\<close>)\<close>

text \<open>
  \<open>MainApp\<close> imports \<open>TranslationControls\<close> but renders \<open>SubtitleFileList\<close> only: the run that
  the start button of a file starts is \<open>handleStartTranslation\<close> of \<open>SubtitleFileList\<close>.  It
  goes through the entries of the file in steps of the batch size, sends the texts of every
  entry of a batch, writes the answers with \<open>updateEntry\<close> to the task of the file, and passes
  the tokens of the task to \<open>updateProgress\<close>.  An error of \<open>translateBatch\<close> ends the run.
\<close>

record SubtitleFile =
  file_id :: string
  file_name :: string
  file_size :: nat
  lastModified :: nat
  file_entries :: "SubtitleEntry list"
  file_filename :: string
  file_currentTaskId :: string

text \<open>
  What the callback has captured: the files of \<open>SubtitleContext\<close> that \<open>updateEntry\<close> looks the
  file up in, the configuration and the task identifier of \<open>TranslationContext\<close>, and the terms.
\<close>

record fileClosure =
  fc_files :: "SubtitleFile list"
  fc_config :: TranslationConfig
  fc_currentTaskId :: string
  fc_terms :: "Term list"

definition translationPercentage :: "SubtitleFile \<Rightarrow> nat" where
  \<comment> \<open>\<open>translationStats.percentage\<close> of \<open>SubtitleFileItem\<close>:
      \<open>Math.round((translated / total) * 100)\<close>, in exact arithmetic\<close>
  "translationPercentage file =
     (let translated = length (filter (\<lambda>entry. truthy (translatedText entry)) (file_entries file));
          n = length (file_entries file)
      in if n > 0 then (200 * translated + n) div (2 * n) else 0)"

definition startButtonEnabled :: "SubtitleFile \<Rightarrow> bool" where
  \<comment> \<open>the start button of a file when no run is going on: \<open>disabled\<close> holds
      \<open>translationStats.percentage === 100\<close>\<close>
  "startButtonEnabled file = (translationPercentage file \<noteq> 100)"

definition updateEntry ::
  "SubtitleFile list \<Rightarrow> DataManager \<Rightarrow> string \<Rightarrow> int \<Rightarrow> string \<Rightarrow> string option \<Rightarrow> DataManager" where
  \<comment> \<open>\<open>updateEntry(fileId, id, text, translatedText)\<close> of \<open>SubtitleContext\<close>, as far as it
      changes the store\<close>
  "updateEntry files s fileId entryId txt tr =
     (case find (\<lambda>f. file_id f = fileId) files of
        None \<Rightarrow> s
      | Some file \<Rightarrow> updateTaskSubtitleEntryInMemory s (file_currentTaskId file) entryId txt tr)"

definition effectiveBatchSize :: "TranslationConfig \<Rightarrow> nat" where
  \<comment> \<open>\<open>config.batchSize || 10\<close>\<close>
  "effectiveBatchSize cfg = (if batchSize cfg = 0 then 10 else batchSize cfg)"

definition getPreviousEntries :: "TranslationConfig \<Rightarrow> SubtitleEntry list \<Rightarrow> nat \<Rightarrow> string" where
  "getPreviousEntries cfg entries currentIndex =
     (let ctxBefore = (if contextBefore cfg = 0 then 2 else contextBefore cfg);
          startIndex = currentIndex - ctxBefore
      in js_join newline (map entry_text (slice entries startIndex currentIndex)))"

definition getNextEntries :: "TranslationConfig \<Rightarrow> SubtitleEntry list \<Rightarrow> nat \<Rightarrow> string" where
  "getNextEntries cfg entries currentIndex =
     (let ctxAfter = (if contextAfter cfg = 0 then 2 else contextAfter cfg);
          endIndex = min (length entries) (currentIndex + ctxAfter)
      in js_join newline (map entry_text (slice entries currentIndex endIndex)))"

definition directOf :: "TranslationMap \<Rightarrow> string \<Rightarrow> string option" where
  \<comment> \<open>\<open>translations[key]?.direct\<close>\<close>
  "directOf trs key = (case map_of trs key of None \<Rightarrow> None | Some v \<Rightarrow> direct v)"

definition updateBatchEntries ::
  "fileClosure \<Rightarrow> SubtitleFile \<Rightarrow> SubtitleEntry list \<Rightarrow> TranslationMap \<Rightarrow> DataManager \<Rightarrow> DataManager" where
  \<comment> \<open>\<open>for (let j = 0; j < batch.length; j++)\<close>: the entry \<open>batch[j]\<close> gets
      \<open>translations[`${j + 1}`]?.direct\<close> when that is not empty\<close>
  "updateBatchEntries fc file batch translations s =
     foldl (\<lambda>st (j, entry).
              let translated = directOf translations (dec (j + 1))
              in if truthy translated
                 then updateEntry (fc_files fc) st (file_id file) (entry_id entry) (entry_text entry) translated
                 else st)
       s (enumerate 0 batch)"

definition updateBatchProgress ::
  "fileClosure \<Rightarrow> SubtitleFile \<Rightarrow> nat \<Rightarrow> SubtitleEntry list \<Rightarrow> BatchResult \<Rightarrow> DataManager \<Rightarrow> DataManager" where
  \<comment> \<open>the tokens of the task plus \<open>result.tokensUsed\<close>, and the call of \<open>updateProgress\<close>\<close>
  "updateBatchProgress fc file i batch result s =
     (let currentTokens = (case getTaskById s (file_currentTaskId file) of
                             None \<Rightarrow> 0
                           | Some task \<Rightarrow> tokens (translation_progress task));
          newTokens = currentTokens + tokensUsed result;
          completedNow = min (i + length batch) (length (file_entries file))
      in updateProgress s completedNow (length (file_entries file)) Direct
           (file_currentTaskId file) (fc_currentTaskId fc) (Some newTokens))"

definition translateFileBatch ::
  "platform \<Rightarrow> environment \<Rightarrow> fileClosure \<Rightarrow> SubtitleFile \<Rightarrow> string \<Rightarrow> nat \<Rightarrow> DataManager \<times> session
     \<Rightarrow> jsError option \<times> DataManager \<times> session" where
  \<comment> \<open>the body of the loop for the index \<open>i\<close>; the error is the one that \<open>translateBatch\<close> raises\<close>
  "translateFileBatch pf env fc file termsString i sw =
     (case sw of (s, w) \<Rightarrow>
        let entries = file_entries file;
            batch = slice entries i (i + effectiveBatchSize (fc_config fc));
            texts = map entry_text batch
        in case translateBatch pf (env_net env) (fc_config fc) (Some (env_signal env)) texts
                  (getPreviousEntries (fc_config fc) entries i)
                  (getNextEntries (fc_config fc) entries (i + length batch))
                  termsString defaultMaxRetries w of
             (Inl e, w1) \<Rightarrow> (Some e, s, w1)
           | (Inr result, w1) \<Rightarrow>
               (None,
                updateBatchProgress fc file i batch result
                  (updateBatchEntries fc file batch (result_translations result) s),
                w1))"

function batchLoop ::
  "platform \<Rightarrow> environment \<Rightarrow> fileClosure \<Rightarrow> SubtitleFile \<Rightarrow> string \<Rightarrow> nat \<Rightarrow> DataManager \<times> session
     \<Rightarrow> jsError option \<times> DataManager \<times> session" where
  \<comment> \<open>\<open>for (let i = 0; i < file.entries.length; i += batchSize)\<close>\<close>
  "batchLoop pf env fc file termsString i sw =
     (if i < length (file_entries file)
      then (case translateFileBatch pf env fc file termsString i sw of
              (Some e, s1, w1) \<Rightarrow> (Some e, s1, w1)
            | (None, s1, w1) \<Rightarrow>
                batchLoop pf env fc file termsString (i + effectiveBatchSize (fc_config fc)) (s1, w1))
      else (None, fst sw, snd sw))"
  by pat_completeness auto
termination
  by (relation "measure (\<lambda>(pf, env, fc, file, termsString, i, sw). length (file_entries file) - i)")
     (auto simp: effectiveBatchSize_def)

declare batchLoop.simps [simp del]

definition fileHistoryEntryOf :: "SubtitleFile \<Rightarrow> SingleTask \<Rightarrow> TranslationHistoryEntry" where
  \<comment> \<open>the argument of \<open>addHistoryEntry\<close>; the time stamp is set by \<open>addHistoryEntry\<close>\<close>
  "fileHistoryEntryOf file completedTask =
     \<lparr>h_taskId = file_currentTaskId file, h_filename = file_name file,
      completedCount = countTranslated (subtitle_entries completedTask),
      totalTokens = tokens (translation_progress completedTask),
      timestamp = 0,
      current_translation_task =
        \<lparr>c_taskId = taskId completedTask, c_subtitle_entries = subtitle_entries completedTask,
         c_subtitle_filename = subtitle_filename completedTask,
         c_translation_progress = translation_progress completedTask\<rparr>\<rparr>"

definition saveFileHistory :: "environment \<Rightarrow> SubtitleFile \<Rightarrow> DataManager \<times> session \<Rightarrow> DataManager \<times> session" where
  \<comment> \<open>the history entry of the run; an error of the write is logged by \<open>HistoryContext\<close>\<close>
  "saveFileHistory env file sw =
     (case sw of (s, w) \<Rightarrow>
        (case getTaskById s (file_currentTaskId file) of
           None \<Rightarrow> (s, w)
         | Some completedTask \<Rightarrow>
             if countTranslated (subtitle_entries completedTask) > 0
             then (case storageWrite env w of
                     (wr, w1) \<Rightarrow>
                       (snd (addHistoryEntry wr (env_now env) s (fileHistoryEntryOf file completedTask)), w1))
             else (s, w)))"

definition forcePersistAllData ::
  "jsError option \<Rightarrow> jsError option \<Rightarrow> DataManager \<Rightarrow> jsError option \<times> DataManager" where
  \<comment> \<open>the writes of the task list and of the history, each with its outcome; the terms and the
      configuration, which it also writes, are not in the store of the model\<close>
  "forcePersistAllData wTasks wHistory s =
     (case persistBatchTasks wTasks s of
        (e1, s1) \<Rightarrow>
          (case persistHistory wHistory s1 of
             (e2, s2) \<Rightarrow> ((case e1 of None \<Rightarrow> e2 | Some e \<Rightarrow> Some e), s2)))"

definition persistAfterRun :: "environment \<Rightarrow> DataManager \<times> session \<Rightarrow> DataManager \<times> session" where
  \<comment> \<open>the timer of 200 ms that calls \<open>forcePersistAllData\<close>; its error is logged\<close>
  "persistAfterRun env sw =
     (case sw of (s, w) \<Rightarrow>
        (case storageWrite env w of
           (wTasks, w1) \<Rightarrow>
             (case storageWrite env w1 of
                (wHistory, w2) \<Rightarrow> (snd (forcePersistAllData wTasks wHistory s), w2))))"

text \<open>
  The run on a file.  The write that the timer of \<open>completeTranslation\<close> starts is taken at the
  call, as in \<^const>\<open>completeTranslation\<close>; nothing else changes the tasks before it.  Toasts and
  the state of the React contexts are left out.
\<close>

definition handleStartTranslation ::
  "platform \<Rightarrow> environment \<Rightarrow> fileClosure \<Rightarrow> SubtitleFile \<Rightarrow> DataManager \<times> session
     \<Rightarrow> DataManager \<times> session" where
  "handleStartTranslation pf env fc file sw =
     (let relevantTerms = getRelevantTerms pf (fc_terms fc) (file_name file) [] [];
          termsString = js_join newline (map (\<lambda>t. original t @ '' -> '' @ translation t) relevantTerms)
      in case batchLoop pf env fc file termsString 0 sw of
           (Some e, s1, w1) \<Rightarrow> (s1, w1)
         | (None, s1, w1) \<Rightarrow>
             persistAfterRun env
               (saveFileHistory env file
                  (completeTranslation env (file_currentTaskId file) (s1, w1))))"

section \<open>Notions used in the statements\<close>


definition notAbortedAt :: "(nat \<Rightarrow> bool) option \<Rightarrow> nat \<Rightarrow> bool" where
  "notAbortedAt sig n = (case sig of None \<Rightarrow> True | Some f \<Rightarrow> \<not> f n)"

definition directPromptFor ::
  "platform \<Rightarrow> TranslationConfig \<Rightarrow> string list \<Rightarrow> string \<Rightarrow> string \<Rightarrow> string \<Rightarrow> string" where
  \<comment> \<open>the prompt that the direct pass of \<open>translateBatch\<close> sends for these arguments\<close>
  "directPromptFor pf cfg texts ctxBefore ctxAfter terms =
     generateDirectPrompt pf (js_join newline texts) (generateSharedPrompt ctxBefore ctxAfter terms)
       (sourceLanguage cfg) (targetLanguage cfg)"

section \<open>A sample platform and sample data\<close>

text \<open>
  For concrete runs: a platform for ASCII text, whose parser is the argument, and the data of
  the scenario with the two entries \<open>Hello\<close> and \<open>World\<close>.
\<close>

definition asciiLower :: "char \<Rightarrow> char" where
  "asciiLower c = (if (65::nat) \<le> of_char c \<and> of_char c \<le> (90::nat) then char_of (of_char c + (32::nat)) else c)"

definition asciiAlnum :: "char \<Rightarrow> bool" where
  "asciiAlnum c = ((48::nat) \<le> of_char c \<and> of_char c \<le> (57::nat) \<or> (65::nat) \<le> of_char c \<and> of_char c \<le> (90::nat)
                 \<or> (97::nat) \<le> of_char c \<and> of_char c \<le> (122::nat))"

definition asciiPlatform :: "(string \<Rightarrow> jsError + TranslationMap) \<Rightarrow> platform" where
  "asciiPlatform parse =
     \<lparr>toLowerCase = map asciiLower, removeNonLettersNumbers = filter asciiAlnum,
      jsonStringify = (\<lambda>d. concat (map (\<lambda>(k, v). k @ '':'' @ (case origin v of None \<Rightarrow> [] | Some s \<Rightarrow> s) @ '';'') d)),
      jsonParse = parse\<rparr>"

definition demoConfig :: "string \<Rightarrow> bool \<Rightarrow> TranslationConfig" where
  "demoConfig key reflection =
     \<lparr>apiKey = key, baseURL = ''https://api.openai.com/v1'', model = ''gpt-3.5-turbo'',
      sourceLanguage = ''English'', targetLanguage = ''Chinese'', contextBefore = 2, contextAfter = 2,
      batchSize = 2, threadCount = 1, rpm = 0, enableReflection = reflection\<rparr>"

definition session0 :: session where
  "session0 = \<lparr>apiKeyIndex = 0, fetchCount = 0, pollCount = 0, writeCount = 0, events = []\<rparr>"

definition nihao :: string where
  "nihao = [CHR 0xE4, CHR 0xBD, CHR 0xA0, CHR 0xE5, CHR 0xA5, CHR 0xBD]"

definition shijie :: string where
  "shijie = [CHR 0xE4, CHR 0xB8, CHR 0x96, CHR 0xE7, CHR 0x95, CHR 0x8C]"

definition helloWorldResult :: TranslationMap where
  "helloWorldResult =
     [(''1'', \<lparr>origin = Some ''Hello'', direct = Some nihao, reflect = None, free = None\<rparr>),
      (''2'', \<lparr>origin = Some ''World'', direct = Some shijie, reflect = None, free = None\<rparr>)]"

definition helloWorldCompletion :: fetchOutcome where
  "helloWorldCompletion =
     ResponseOk (Body \<lparr>usage_total_tokens = Some 42, choices = Some [Some ''{...}'']\<rparr>)"

definition helloWorldPlatform :: platform where
  "helloWorldPlatform = asciiPlatform (\<lambda>content. Inr helloWorldResult)"

text \<open>
  The scenario of the two entries as a run on a file, a file of which the first two entries
  are translated, and entries of which the last two are translated.
\<close>

definition helloEntries :: "SubtitleEntry list" where
  "helloEntries = [demoEntry 1 ''Hello'' None, demoEntry 2 ''World'' None]"

definition helloFile :: SubtitleFile where
  "helloFile =
     \<lparr>file_id = ''file_1'', file_name = ''a.srt'', file_size = 64, lastModified = 0,
      file_entries = helloEntries, file_filename = ''a.srt'', file_currentTaskId = ''task_file''\<rparr>"

definition helloFileClosure :: fileClosure where
  "helloFileClosure =
     \<lparr>fc_files = [helloFile], fc_config = demoConfig ''sk-1'' False, fc_currentTaskId = [],
      fc_terms = []\<rparr>"

definition helloEnv :: environment where
  "helloEnv =
     \<lparr>env_net = (\<lambda>n. helloWorldCompletion), env_signal = (\<lambda>n. False), env_storage = (\<lambda>n. None),
      env_newTaskId = ''task_run'', env_now = 1700000000000\<rparr>"

definition helloStore :: DataManager where
  "helloStore = demoStore [demoTask ''task_file'' helloEntries 0]"

definition taskOutcome :: "DataManager \<times> session \<Rightarrow> string \<Rightarrow> (string option list \<times> TaskProgress) option" where
  \<comment> \<open>the translations and the progress of a task after a run\<close>
  "taskOutcome r tid =
     map_option (\<lambda>t. (map translatedText (subtitle_entries t), translation_progress t))
       (getTaskById (fst r) tid)"

definition helloDone :: "SubtitleEntry list" where
  "helloDone = [demoEntry 1 ''Hello'' (Some nihao), demoEntry 2 ''World'' (Some shijie)]"

definition helloTask :: "SubtitleEntry list \<Rightarrow> TaskProgress \<Rightarrow> SingleTask" where
  "helloTask es p =
     \<lparr>taskId = ''task_file'', subtitle_entries = es, subtitle_filename = ''a.srt'',
      translation_progress = p, index = 0\<rparr>"

definition partEntries :: "SubtitleEntry list" where
  "partEntries =
     [demoEntry 1 ''a'' (Some ''x''), demoEntry 2 ''b'' (Some ''y''), demoEntry 3 ''c'' None]"

definition partFile :: SubtitleFile where
  "partFile = helloFile\<lparr>file_entries := partEntries\<rparr>"

definition partFileClosure :: fileClosure where
  "partFileClosure = helloFileClosure\<lparr>fc_files := [partFile]\<rparr>"

definition partStore :: DataManager where
  "partStore = demoStore [demoTask ''task_file'' partEntries 2]"

definition gapEntries :: "SubtitleEntry list" where
  "gapEntries =
     [demoEntry 1 ''a'' None, demoEntry 2 ''b'' None,
      demoEntry 3 ''c'' (Some ''x''), demoEntry 4 ''d'' (Some ''y'')]"

definition gapClosure :: closure where
  "gapClosure =
     \<lparr>cl_entries = gapEntries, cl_filename = ''a.srt'', cl_fileTaskId = ''task_file'',
      cl_config = demoConfig ''sk-1'' False, cl_currentTaskId = [], cl_tokensUsed = 0, cl_terms = []\<rparr>"

definition gapStore :: DataManager where
  "gapStore = demoStore [demoTask ''task_file'' gapEntries 2]"

section \<open>Verified properties\<close>

subsection \<open>Searching and replacing in lists\<close>

lemma findIndex_None_iff: "findIndex p xs = None \<longleftrightarrow> (\<forall>x\<in>set xs. \<not> p x)"
  by (induction xs) (auto split: option.splits)

lemma findIndex_SomeD:
  "findIndex p xs = Some i \<Longrightarrow> i < length xs \<and> p (xs ! i) \<and> (\<forall>j<i. \<not> p (xs ! j))"
proof (induction xs arbitrary: i)
  case Nil
  then show ?case by simp
next
  case (Cons x xs)
  show ?case
  proof (cases "p x")
    case True
    with Cons.prems show ?thesis by simp
  next
    case False
    with Cons.prems obtain k where k: "findIndex p xs = Some k" "i = Suc k"
      by (auto split: option.splits)
    from Cons.IH [OF k(1)] False k(2) show ?thesis
      by (auto simp: less_Suc_eq_0_disj)
  qed
qed

lemma find_findIndex:
  "find p xs = Some x \<Longrightarrow> \<exists>i. findIndex p xs = Some i \<and> i < length xs \<and> xs ! i = x"
  by (induction xs) (auto split: if_splits)

lemma find_None_findIndex: "find p xs = None \<Longrightarrow> findIndex p xs = None"
  by (simp add: find_None_iff findIndex_None_iff)

lemma find_list_update:
  "findIndex p xs = Some i \<Longrightarrow> p y \<Longrightarrow> find p (xs[i := y]) = Some y"
proof (induction xs arbitrary: i)
  case Nil
  then show ?case by simp
next
  case (Cons x xs)
  then show ?case by (cases i) (auto split: if_splits option.splits)
qed

lemma getTaskById_taskId: "getTaskById s tid = Some t \<Longrightarrow> taskId t = tid"
  by (auto simp: getTaskById_def dest: find_Some_iff [THEN iffD1])

lemma getTaskById_replaceTask:
  assumes "getTaskById s tid = Some t" and "taskId t' = tid"
  shows "getTaskById (replaceTask s tid t') tid = Some t'"
proof -
  from assms(1) obtain i where "findIndex (\<lambda>t. taskId t = tid) (batch_tasks s) = Some i"
    unfolding getTaskById_def by (blast dest: find_findIndex)
  with assms(2) show ?thesis
    by (simp add: replaceTask_def getTaskById_def find_list_update)
qed

lemma storeInSync_replaceTask:
  "storeInSync s \<Longrightarrow> progressInSync t' \<Longrightarrow> storeInSync (replaceTask s tid t')"
  unfolding storeInSync_def replaceTask_def list_all_iff
  by (auto split: option.splits dest: set_update_subset_insert [THEN subsetD])

lemma progressInSync_withEntries: "progressInSync (withEntries t es)"
  by (simp add: progressInSync_def withEntries_def)

lemma taskId_withEntries: "taskId (withEntries t es) = taskId t"
  by (simp add: withEntries_def)

subsection \<open>Operations on a task that is not in the store\<close>

text \<open>
  Claim C8.  For a \<open>taskId\<close> that no task of the store has, \<open>updateTaskSubtitleEntryInMemory\<close>,
  \<open>updateTaskTranslationProgressInMemory\<close> and \<open>completeTask\<close> raise nothing and leave the whole
  store as it was: the tasks in memory, the history and the durable copies; \<open>completeTask\<close> does
  not even reach its write to the durable storage, whatever that write would have answered.
\<close>

theorem absent_task_no_op:
  assumes "tid \<notin> taskId ` set (batch_tasks s)"
  shows "updateTaskSubtitleEntryInMemory s tid entryId txt tr = s
       \<and> updateTaskTranslationProgressInMemory s tid updates = s
       \<and> completeTask w s tid finalTokens = (None, s)"
proof -
  from assms have "getTaskById s tid = None"
    by (auto simp: getTaskById_def find_None_iff)
  then show ?thesis
    by (simp add: updateTaskSubtitleEntryInMemory_def updateTaskTranslationProgressInMemory_def
        completeTask_def)
qed

theorem absent_task_no_op_witness:
  "updateTaskSubtitleEntryInMemory (demoStore [demoTask ''t1'' [demoEntry 1 ''Hello'' None] 0]) ''t2'' 1 ''Hi'' (Some ''x'')
     = demoStore [demoTask ''t1'' [demoEntry 1 ''Hello'' None] 0]
   \<and> updateTaskTranslationProgressInMemory (demoStore [demoTask ''t1'' [demoEntry 1 ''Hello'' None] 0]) ''t2''
       \<lparr>upd_completed = Some 1, upd_total = None, upd_tokens = None, upd_status = Some Completed\<rparr>
     = demoStore [demoTask ''t1'' [demoEntry 1 ''Hello'' None] 0]
   \<and> completeTask (Some (JsError ''QuotaExceededError'' ''full'')) (demoStore [demoTask ''t1'' [demoEntry 1 ''Hello'' None] 0]) ''t2'' 7
     = (None, demoStore [demoTask ''t1'' [demoEntry 1 ''Hello'' None] 0])"
proof -
  have h: "''t2'' \<notin> taskId ` set (batch_tasks (demoStore [demoTask ''t1'' [demoEntry 1 ''Hello'' None] 0]))"
    by (simp add: demoStore_def demoTask_def)
  show ?thesis
    using absent_task_no_op [OF h] by simp
qed

subsection \<open>The \<open>completed\<close> counter\<close>

text \<open>
  Claim C3 says that after every operation that changes the entries or the progress of a task,
  \<open>completed\<close> is the number of translated entries.  \<open>updateTaskTranslationProgressInMemory\<close>
  does not count: it stores what its caller passes.  On a store with one task, one translated
  entry and \<open>completed = 1\<close>, the update that \<open>updateProgress(0, 1, 'direct', ...)\<close> sends
  leaves \<open>completed = 0\<close>.
\<close>

theorem completed_drifts_counterexample:
  "storeInSync (demoStore [demoTask ''t1'' [demoEntry 1 ''Hello'' (Some ''x'')] 1])
   \<and> \<not> storeInSync (updateTaskTranslationProgressInMemory
          (demoStore [demoTask ''t1'' [demoEntry 1 ''Hello'' (Some ''x'')] 1]) ''t1''
          \<lparr>upd_completed = Some 0, upd_total = Some 1, upd_tokens = None, upd_status = Some Translating\<rparr>)"
  by (simp add: storeInSync_def progressInSync_def demoStore_def demoTask_def demoEntry_def
      updateTaskTranslationProgressInMemory_def getTaskById_def replaceTask_def mergeProgress_def
      countTranslated_def isTranslated_def js_trim_def ws1_def)

text \<open>
  Claim C3, amended.  For a task that is in the store, \<open>updateTaskSubtitleEntryInMemory\<close> and
  \<open>batchUpdateTaskSubtitleEntries\<close> leave the task with \<open>completed\<close> equal to the number of its
  entries whose translation is not blank, and a store in which every task has this property
  keeps it.  \<open>updateTaskTranslationProgressInMemory\<close> leaves the entries as they are and sets
  \<open>completed\<close> to the value in the update, or keeps the old value when the update has none.
\<close>

theorem completed_recomputed_by_entry_updates:
  assumes "getTaskById s tid = Some task"
  shows "(\<exists>t'. getTaskById (updateTaskSubtitleEntryInMemory s tid entryId txt tr) tid = Some t' \<and> progressInSync t')
       \<and> (\<exists>t'. getTaskById (batchUpdateTaskSubtitleEntries s tid updates) tid = Some t' \<and> progressInSync t')
       \<and> (storeInSync s \<longrightarrow> storeInSync (updateTaskSubtitleEntryInMemory s tid entryId txt tr)
                          \<and> storeInSync (batchUpdateTaskSubtitleEntries s tid updates))
       \<and> (\<exists>t'. getTaskById (updateTaskTranslationProgressInMemory s tid u) tid = Some t'
              \<and> subtitle_entries t' = subtitle_entries task
              \<and> completed (translation_progress t') =
                  (case upd_completed u of None \<Rightarrow> completed (translation_progress task) | Some v \<Rightarrow> v))"
proof -
  have tid: "taskId task = tid"
    using assms by (rule getTaskById_taskId)
  have a: "\<exists>t'. getTaskById (updateTaskSubtitleEntryInMemory s tid entryId txt tr) tid = Some t' \<and> progressInSync t'"
    using assms tid
    by (simp add: updateTaskSubtitleEntryInMemory_def getTaskById_replaceTask taskId_withEntries
        progressInSync_withEntries)
  have b: "\<exists>t'. getTaskById (batchUpdateTaskSubtitleEntries s tid updates) tid = Some t' \<and> progressInSync t'"
    using assms tid
    by (simp add: batchUpdateTaskSubtitleEntries_def getTaskById_replaceTask taskId_withEntries
        progressInSync_withEntries)
  have c: "storeInSync s \<longrightarrow> storeInSync (updateTaskSubtitleEntryInMemory s tid entryId txt tr)
                          \<and> storeInSync (batchUpdateTaskSubtitleEntries s tid updates)"
    using assms
    by (simp add: updateTaskSubtitleEntryInMemory_def batchUpdateTaskSubtitleEntries_def
        storeInSync_replaceTask progressInSync_withEntries)
  have d: "\<exists>t'. getTaskById (updateTaskTranslationProgressInMemory s tid u) tid = Some t'
              \<and> subtitle_entries t' = subtitle_entries task
              \<and> completed (translation_progress t') =
                  (case upd_completed u of None \<Rightarrow> completed (translation_progress task) | Some v \<Rightarrow> v)"
    using assms tid
    by (simp add: updateTaskTranslationProgressInMemory_def getTaskById_replaceTask mergeProgress_def)
  from a b c d show ?thesis by blast
qed

theorem completed_recomputed_by_entry_updates_witness:
  "(\<exists>t'. getTaskById (updateTaskSubtitleEntryInMemory
            (demoStore [demoTask ''t1'' [demoEntry 1 ''Hello'' None] 0]) ''t1'' 1 ''Hello'' (Some ''x'')) ''t1'' = Some t'
         \<and> progressInSync t' \<and> completed (translation_progress t') = 1)
   \<and> storeInSync (demoStore [demoTask ''t1'' [demoEntry 1 ''Hello'' None] 0])
   \<and> storeInSync (updateTaskSubtitleEntryInMemory
            (demoStore [demoTask ''t1'' [demoEntry 1 ''Hello'' None] 0]) ''t1'' 1 ''Hello'' (Some ''x''))"
proof -
  let ?s = "demoStore [demoTask ''t1'' [demoEntry 1 ''Hello'' None] 0]"
  have h: "getTaskById ?s ''t1'' = Some (demoTask ''t1'' [demoEntry 1 ''Hello'' None] 0)"
    by (simp add: getTaskById_def demoStore_def demoTask_def)
  have sync: "storeInSync ?s"
    by (simp add: storeInSync_def progressInSync_def demoStore_def demoTask_def demoEntry_def
        countTranslated_def isTranslated_def)
  note inst = completed_recomputed_by_entry_updates [OF h, of 1 "''Hello''" "Some ''x''"]
  from inst obtain t' where t':
      "getTaskById (updateTaskSubtitleEntryInMemory ?s ''t1'' 1 ''Hello'' (Some ''x'')) ''t1'' = Some t'"
      "progressInSync t'"
    by blast
  from inst sync have sync': "storeInSync (updateTaskSubtitleEntryInMemory ?s ''t1'' 1 ''Hello'' (Some ''x''))"
    by blast
  have "getTaskById (updateTaskSubtitleEntryInMemory ?s ''t1'' 1 ''Hello'' (Some ''x'')) ''t1''
        = Some (demoTask ''t1'' [demoEntry 1 ''Hello'' (Some ''x'')] 1)"
    by (simp add: updateTaskSubtitleEntryInMemory_def getTaskById_def replaceTask_def withEntries_def
        demoStore_def demoTask_def demoEntry_def countTranslated_def isTranslated_def js_trim_def ws1_def)
  with t' have "completed (translation_progress t') = 1"
    by (auto simp: demoTask_def)
  with t' sync sync' show ?thesis by blast
qed

subsection \<open>The translation history\<close>

lemma distinct_map_list_update:
  assumes "distinct (map f xs)" and "i < length xs" and "f y = f (xs ! i)"
  shows "distinct (map f (xs[i := y]))"
proof -
  have "map f (xs[i := y]) = (map f xs)[i := f (xs ! i)]"
    using assms(3) by (simp add: map_update)
  also have "\<dots> = map f xs"
    using assms(2) by (simp add: list_update_same_conv)
  finally show ?thesis using assms(1) by simp
qed

lemma distinct_addHistory:
  assumes "distinct (map h_taskId h)"
  shows "distinct (map h_taskId (addHistory h entry now))"
proof (cases "findIndex (\<lambda>x. h_taskId x = h_taskId entry) h")
  case None
  then have "h_taskId entry \<notin> h_taskId ` set h"
    by (auto simp: findIndex_None_iff)
  with assms None show ?thesis
    by (simp add: addHistory_def)
next
  case (Some i)
  from findIndex_SomeD [OF Some] have "i < length h" "h_taskId (h ! i) = h_taskId entry"
    by simp_all
  with assms Some show ?thesis
    by (simp add: addHistory_def distinct_map_list_update)
qed

lemma distinct_historyStep:
  "distinct (historyIds (snd r)) \<Longrightarrow> distinct (historyIds (snd (historyStep r c)))"
proof (cases r)
  case (Pair e s)
  assume d: "distinct (historyIds (snd r))"
  obtain w op where c: "c = (w, op)" by (cases c)
  show ?thesis
  proof (cases op)
    case (AddHistoryEntry entry now)
    with d Pair c show ?thesis
      by (cases w) (simp_all add: historyIds_def addHistoryEntry_def persistHistory_def distinct_addHistory)
  next
    case (DeleteHistoryEntry tid)
    with d Pair c show ?thesis
      by (cases w) (simp_all add: historyIds_def deleteHistoryEntry_def persistHistory_def distinct_map_filter)
  next
    case ClearHistory
    with Pair c show ?thesis
      by (cases w) (simp_all add: historyIds_def clearHistory_def)
  qed
qed

lemma distinct_history_foldl:
  "distinct (historyIds (snd r)) \<Longrightarrow> distinct (historyIds (snd (foldl historyStep r cs)))"
  by (induction cs arbitrary: r) (simp_all add: distinct_historyStep)

text \<open>
  Claim C10.  \<open>addHistoryEntry\<close> on a \<open>taskId\<close> that the history already has puts the new
  entry, stamped with the current time, at the position of the old one, and the history keeps
  its length; so a history without a repeated \<open>taskId\<close> (the empty one the store starts with)
  has none after any sequence of \<open>addHistoryEntry\<close>, \<open>deleteHistoryEntry\<close> and \<open>clearHistory\<close>,
  whether their writes to the durable storage succeed or not.
\<close>

theorem history_keyed_by_taskId:
  "(h_taskId entry \<in> set (historyIds s) \<longrightarrow>
      (\<exists>i < length (translation_history s).
          h_taskId (translation_history s ! i) = h_taskId entry
        \<and> translation_history (snd (addHistoryEntry w now s entry))
            = (translation_history s)[i := entry\<lparr>timestamp := now\<rparr>]))
   \<and> (distinct (historyIds s) \<longrightarrow> distinct (historyIds (snd (foldl historyStep (r, s) cs))))"
proof (intro conjI impI)
  assume "h_taskId entry \<in> set (historyIds s)"
  then have "findIndex (\<lambda>x. h_taskId x = h_taskId entry) (translation_history s) \<noteq> None"
    by (auto simp: historyIds_def findIndex_None_iff)
  then obtain i where i: "findIndex (\<lambda>x. h_taskId x = h_taskId entry) (translation_history s) = Some i"
    by blast
  from findIndex_SomeD [OF i] i
  show "\<exists>i < length (translation_history s).
          h_taskId (translation_history s ! i) = h_taskId entry
        \<and> translation_history (snd (addHistoryEntry w now s entry))
            = (translation_history s)[i := entry\<lparr>timestamp := now\<rparr>]"
    by (cases w) (auto simp: addHistoryEntry_def persistHistory_def addHistory_def)
next
  assume "distinct (historyIds s)"
  then show "distinct (historyIds (snd (foldl historyStep (r, s) cs)))"
    by (simp add: distinct_history_foldl)
qed

theorem history_keyed_by_taskId_witness:
  "translation_history (snd (addHistoryEntry None 900
       (snd (addHistoryEntry None 500 (snd (addHistoryEntry None 100 (demoStore []) (demoHistoryEntry ''t1'' 1)))
            (demoHistoryEntry ''t2'' 2)))
       (demoHistoryEntry ''t1'' 3)))
     = [(demoHistoryEntry ''t2'' 2)\<lparr>timestamp := 500\<rparr>, (demoHistoryEntry ''t1'' 3)\<lparr>timestamp := 900\<rparr>]
   \<and> distinct (historyIds (snd (foldl historyStep (None, demoStore [])
        [(None, AddHistoryEntry (demoHistoryEntry ''t1'' 1) 100),
         (None, AddHistoryEntry (demoHistoryEntry ''t2'' 2) 500),
         (Some (JsError ''QuotaExceededError'' ''full''), AddHistoryEntry (demoHistoryEntry ''t1'' 3) 900),
         (None, DeleteHistoryEntry ''t2''),
         (None, AddHistoryEntry (demoHistoryEntry ''t1'' 4) 950)])))"
proof -
  let ?s = "snd (addHistoryEntry None 500 (snd (addHistoryEntry None 100 (demoStore []) (demoHistoryEntry ''t1'' 1)))
            (demoHistoryEntry ''t2'' 2))"
  have hist: "translation_history ?s
      = [(demoHistoryEntry ''t2'' 2)\<lparr>timestamp := 500\<rparr>, (demoHistoryEntry ''t1'' 1)\<lparr>timestamp := 100\<rparr>]"
    by (simp add: addHistoryEntry_def persistHistory_def addHistory_def demoStore_def demoHistoryEntry_def)
  have mem: "h_taskId (demoHistoryEntry ''t1'' 3) \<in> set (historyIds ?s)"
    unfolding historyIds_def hist by (simp add: demoHistoryEntry_def)
  have d: "distinct (historyIds (demoStore []))"
    by (simp add: historyIds_def demoStore_def)
  from history_keyed_by_taskId [of "demoHistoryEntry ''t1'' 3" ?s None 900]
  obtain i where i: "i < length (translation_history ?s)"
      "h_taskId (translation_history ?s ! i) = h_taskId (demoHistoryEntry ''t1'' 3)"
      "translation_history (snd (addHistoryEntry None 900 ?s (demoHistoryEntry ''t1'' 3)))
         = (translation_history ?s)[i := (demoHistoryEntry ''t1'' 3)\<lparr>timestamp := 900\<rparr>]"
    using mem by blast
  from i(1,2) have "i = 1"
    unfolding hist by (cases i) (simp_all add: demoHistoryEntry_def)
  with i(3) have one: "translation_history (snd (addHistoryEntry None 900 ?s (demoHistoryEntry ''t1'' 3)))
     = [(demoHistoryEntry ''t2'' 2)\<lparr>timestamp := 500\<rparr>, (demoHistoryEntry ''t1'' 3)\<lparr>timestamp := 900\<rparr>]"
    unfolding hist by simp
  from history_keyed_by_taskId [of undefined "demoStore []"] d
  have two: "distinct (historyIds (snd (foldl historyStep (None, demoStore [])
        [(None, AddHistoryEntry (demoHistoryEntry ''t1'' 1) 100),
         (None, AddHistoryEntry (demoHistoryEntry ''t2'' 2) 500),
         (Some (JsError ''QuotaExceededError'' ''full''), AddHistoryEntry (demoHistoryEntry ''t1'' 3) 900),
         (None, DeleteHistoryEntry ''t2''),
         (None, AddHistoryEntry (demoHistoryEntry ''t1'' 4) 950)])))"
    by blast
  from one two show ?thesis by blast
qed

subsection \<open>Terms and prompts\<close>

lemma Term_rebuild: "map (\<lambda>t::Term. \<lparr>original = original t, translation = translation t\<rparr>) ts = ts"
  by (induction ts) simp_all

lemma getRelevantTerms_filter:
  "getRelevantTerms pf terms txt cb ca =
     filter (\<lambda>t. cleanText pf (original t) \<noteq> []
                \<and> js_includes (cleanText pf (cb @ '' '' @ txt @ '' '' @ ca)) (cleanText pf (original t))) terms"
proof -
  have "map (\<lambda>(t, cleanedOriginal). \<lparr>original = original t, translation = translation t\<rparr>)
          (filter (\<lambda>(t, c). c \<noteq> [] \<and> js_includes full c) (map (\<lambda>t. (t, cleanText pf (original t))) terms))
        = filter (\<lambda>t. cleanText pf (original t) \<noteq> [] \<and> js_includes full (cleanText pf (original t))) terms"
    for full
    by (simp add: filter_map comp_def Term_rebuild)
  then show ?thesis
    by (simp add: getRelevantTerms_def Let_def)
qed

text \<open>
  Claim C9.  \<open>getRelevantTerms\<close> returns a subsequence of the term list, its elements unchanged
  and in the order of the list, and it never selects a term whose cleaned original is empty,
  although the empty string is included in every text (\<open>js_includes_empty\<close>).
\<close>

theorem relevant_terms_subsequence:
  "subseq (getRelevantTerms pf terms txt cb ca) terms
   \<and> (cleanText pf (original t) = [] \<longrightarrow> t \<notin> set (getRelevantTerms pf terms txt cb ca))"
  by (simp add: getRelevantTerms_filter)

lemma js_includes_empty: "js_includes s []"
  by (induction s) simp_all

theorem relevant_terms_subsequence_witness:
  "cleanText (asciiPlatform (\<lambda>_. Inr [])) (original \<lparr>original = ''--'', translation = ''Y''\<rparr>) = []
   \<and> \<lparr>original = ''--'', translation = ''Y''\<rparr> \<notin> set (getRelevantTerms (asciiPlatform (\<lambda>_. Inr []))
        [\<lparr>original = ''Dr. Who'', translation = ''X''\<rparr>, \<lparr>original = ''--'', translation = ''Y''\<rparr>,
         \<lparr>original = ''tardis'', translation = ''Z''\<rparr>]
        ''the TARDIS lands'' ''I am DrWho'' '''')"
proof -
  have h: "cleanText (asciiPlatform (\<lambda>_. Inr [])) (original \<lparr>original = ''--'', translation = ''Y''\<rparr>) = []"
    by (simp add: cleanText_def asciiPlatform_def asciiLower_def asciiAlnum_def)
  with relevant_terms_subsequence [of "asciiPlatform (\<lambda>_. Inr [])" _ _ _ _ "\<lparr>original = ''--'', translation = ''Y''\<rparr>"]
  show ?thesis by blast
qed

lemma js_split_no_sep: "sep \<notin> set s \<Longrightarrow> js_split sep s = [s]"
  by (induction s) auto

lemma js_split_append: "sep \<notin> set x \<Longrightarrow> js_split sep (x @ sep # r) = x # js_split sep r"
  by (induction x) auto

lemma js_split_join:
  "texts \<noteq> [] \<Longrightarrow> \<forall>l\<in>set texts. sep \<notin> set l \<Longrightarrow> js_split sep (js_join [sep] texts) = texts"
  by (induction "[sep]" texts rule: js_join.induct) (simp_all add: js_split_no_sep js_split_append)

lemma directTemplate_of_lines:
  assumes "texts \<noteq> []" and "\<forall>l\<in>set texts. CHR 0x0A \<notin> set l"
  shows "directTemplateFor texts =
           map (\<lambda>(idx, line). (dec (idx + 1), \<lparr>origin = Some line, direct = Some [], reflect = None, free = None\<rparr>))
             (enumerate 0 texts)"
  using assms by (simp add: directTemplateFor_def directJsonDict_def lineArray_def newline_def js_split_join)

lemma dec_digit: "n < 10 \<Longrightarrow> dec n = [char_of (48 + n)]"
  by (simp add: dec.simps)

text \<open>
  Claim C7 says that for \<open>n\<close> source lines the template has the keys \<open>1\<close> to \<open>n\<close>, key \<open>k\<close>
  with the \<open>k\<close>-th line as \<open>origin\<close>.  \<open>translateBatch\<close> joins the texts with line feeds and
  \<open>generateDirectPrompt\<close> splits the result again, so a text with a line feed in it takes two
  keys: for the two texts \<open>a\<close>, line feed, \<open>b\<close> and \<open>c\<close> the template has three keys, and key \<open>2\<close> holds
  the second half of the first text instead of the second text.  For texts without line feeds
  the claim holds (\<open>directTemplate_of_lines\<close>, \<open>directTemplate_abc\<close>).
\<close>

theorem multiline_entry_shifts_template_keys:
  "directTemplateFor [''a'' @ newline @ ''b'', ''c''] =
     [(''1'', \<lparr>origin = Some ''a'', direct = Some '''', reflect = None, free = None\<rparr>),
      (''2'', \<lparr>origin = Some ''b'', direct = Some '''', reflect = None, free = None\<rparr>),
      (''3'', \<lparr>origin = Some ''c'', direct = Some '''', reflect = None, free = None\<rparr>)]"
  by code_simp

lemma directTemplate_abc:
  "directTemplateFor [''a'', ''b'', ''c''] =
     [(''1'', \<lparr>origin = Some ''a'', direct = Some '''', reflect = None, free = None\<rparr>),
      (''2'', \<lparr>origin = Some ''b'', direct = Some '''', reflect = None, free = None\<rparr>),
      (''3'', \<lparr>origin = Some ''c'', direct = Some '''', reflect = None, free = None\<rparr>)]"
  by code_simp

subsection \<open>The retry loop\<close>


lemma not_isCancellation_noValidKeyError: "\<not> isCancellation noValidKeyError"
  by code_simp



lemma pollSignal_props:
  "pollSignal sig w = (b, w1) \<Longrightarrow> events w1 = events w \<and> fetchCount w1 = fetchCount w \<and> apiKeyIndex w1 = apiKeyIndex w"
  by (auto simp: pollSignal_def split: option.splits)

lemma pollSignal_not_aborted:
  "notAbortedAt sig (pollCount w) \<Longrightarrow> \<exists>w1. pollSignal sig w = (False, w1)"
  by (auto simp: pollSignal_def notAbortedAt_def split: option.splits)

lemma getNextApiKey_props:
  "getNextApiKey k w = (r, w1) \<Longrightarrow> events w1 = events w \<and> fetchCount w1 = fetchCount w \<and> pollCount w1 = pollCount w"
  by (auto simp: getNextApiKey_def Let_def split: if_splits)








subsection \<open>Runs of the client\<close>

lemma directLoop_code [code]:
  "directLoop pf net cfg sig p maxRetries attempt le tok w =
     (if maxRetries < attempt then (Inr (le, tok, []), w)
      else if fst (pollSignal sig w) then (Inl cancelledError, snd (pollSignal sig w))
      else
        let a = directAttempt pf net cfg sig p tok (snd (pollSignal sig w)) in
        if (case fst a of Succeeded _ _ \<Rightarrow> True | Failed _ _ \<Rightarrow> False)
        then (Inr (le, tokensAfter (fst a), parsed (fst a)), snd a)
        else if isCancellation (raised (fst a)) then (Inl (raised (fst a)), snd a)
        else directLoop pf net cfg sig p maxRetries (attempt + 1) (Some (raised (fst a))) (tokensAfter (fst a))
               (if attempt < maxRetries then emit (Sleep (1000 * attempt)) (snd a) else snd a))"
  apply (subst directLoop.simps)
  apply (cases "pollSignal sig w")
  apply (cases "directAttempt pf net cfg sig p tok (snd (pollSignal sig w))")
  subgoal for b w1 a w2
    apply (cases a)
     apply (simp_all add: Let_def)
    done
  done


text \<open>
  Claim C5 says that a key string without a valid key raises a configuration error that is not
  retried.  With the key string \<open>|\<close> the guard before the loop lets the call pass,
  \<open>getNextApiKey\<close> raises inside the \<open>try\<close> block of the loop, and the loop treats the error as
  a failed attempt: five attempts, each taking a slot of the rate limiter, and waits of 1, 2, 3
  and 4 seconds, before the error is raised.  No request is sent.  \<open>testConnection\<close>, which
  calls \<open>getNextApiKey\<close> outside of its \<open>try\<close> block, raises the same error at once.
\<close>

theorem invalid_key_list_is_retried:
  "fst (translateBatch helloWorldPlatform (\<lambda>n. helloWorldCompletion)
          (demoConfig ''|'' False) (Some (\<lambda>n. False)) [''Hello'', ''World''] [] [] [] defaultMaxRetries session0)
     = Inl noValidKeyError
   \<and> events (snd (translateBatch helloWorldPlatform (\<lambda>n. helloWorldCompletion)
          (demoConfig ''|'' False) (Some (\<lambda>n. False)) [''Hello'', ''World''] [] [] [] defaultMaxRetries session0))
     = [RateLimiterWait, Sleep 1000, RateLimiterWait, Sleep 2000, RateLimiterWait, Sleep 3000,
        RateLimiterWait, Sleep 4000, RateLimiterWait]
   \<and> testConnection (\<lambda>n. helloWorldCompletion) (demoConfig ''|'' False) session0 = (Inl noValidKeyError, session0)"
  by code_simp

text \<open>
  Claim C6 says that \<open>translateBatch\<close> returns the direct result whenever the reflection call
  answers with a status that is not 2xx.  The body of such an answer is read inside the \<open>try\<close>
  block; when the read is aborted, the \<open>catch\<close> block raises the \<open>AbortError\<close> again.
\<close>

theorem abort_while_reading_error_body_counterexample:
  "fst (directLoop helloWorldPlatform
          (\<lambda>n. if n = 0 then helloWorldCompletion
                else ResponseNotOk 500 (BodyFails (JsError ''AbortError'' ''The user aborted a request.'')))
          (demoConfig ''sk-1'' True) (Some (\<lambda>n. False))
          (generateDirectPrompt helloWorldPlatform (js_join newline [''Hello'', ''World''])
             (generateSharedPrompt [] [] []) ''English'' ''Chinese'')
          defaultMaxRetries 1 None 0 session0)
     = Inr (None, 42, helloWorldResult)
   \<and> fst (translateBatch helloWorldPlatform
          (\<lambda>n. if n = 0 then helloWorldCompletion
                else ResponseNotOk 500 (BodyFails (JsError ''AbortError'' ''The user aborted a request.'')))
          (demoConfig ''sk-1'' True) (Some (\<lambda>n. False)) [''Hello'', ''World''] [] [] [] defaultMaxRetries session0)
     = Inl (JsError ''AbortError'' ''The user aborted a request.'')"
  by code_simp

subsection \<open>Retries, cancellation and the reflection pass\<close>











text \<open>
  Claim C6, amended.  When the direct pass has succeeded, reflection is enabled, the signal is
  not aborted when the reflection pass reads it, and the reflection call answers with a status
  that is not 2xx, then \<open>translateBatch\<close> returns the result of the direct pass as it is, with
  the tokens of the direct pass only, and raises nothing, provided that reading the body of
  the answer does not raise an error taken for a cancellation.
\<close>

theorem reflection_failure_falls_back:
  assumes "apiKey cfg \<noteq> []" and "enableReflection cfg"
    and "directLoop pf net cfg sig
           (generateDirectPrompt pf (js_join newline texts) (generateSharedPrompt cb ca terms)
              (sourceLanguage cfg) (targetLanguage cfg))
           maxRetries 1 None 0 w = (Inr (lastError, tok, directResult), w1)"
    and "directResult \<noteq> []"
    and "notAbortedAt sig (pollCount w1)" and "notAbortedAt sig (pollCount w1 + 1)"
    and "net (fetchCount w1) = ResponseNotOk st body"
    and "\<forall>e. body = BodyFails e \<longrightarrow> \<not> isCancellation e"
  shows "fst (translateBatch pf net cfg sig texts cb ca terms maxRetries w)
           = Inr \<lparr>result_translations = directResult, tokensUsed = tok\<rparr>"
proof -
  let ?direct = "Inr \<lparr>result_translations = directResult, tokensUsed = tok\<rparr> :: jsError + BatchResult"
  from assms(5) obtain w2 where p1: "pollSignal sig w1 = (False, w2)"
    using pollSignal_not_aborted by blast
  have w2: "fetchCount w2 = fetchCount w1"
    using pollSignal_props [OF p1] by simp
  have "pollCount w2 = pollCount w1 \<or> pollCount w2 = pollCount w1 + 1"
    using p1 by (auto simp: pollSignal_def split: option.splits)
  with assms(5,6) have "notAbortedAt sig (pollCount (emit RateLimiterWait w2))"
    by (auto simp: emit_def)
  then obtain w3 where p2: "pollSignal sig (emit RateLimiterWait w2) = (False, w3)"
    using pollSignal_not_aborted by blast
  have w3: "fetchCount w3 = fetchCount w1"
    using pollSignal_props [OF p2] w2 by (simp add: emit_def)
  obtain r w4 where k: "getNextApiKey (apiKey cfg) w3 = (r, w4)"
    by (cases "getNextApiKey (apiKey cfg) w3")
  have w4: "fetchCount w4 = fetchCount w1"
    using getNextApiKey_props [OF k] w3 by simp
  have resp: "reflectionResponse pf (ResponseNotOk st body) directResult tok = ?direct"
    using assms(8) by (cases body) (simp_all add: reflectionResponse_def reflectionCatch_def)
  have "fst (reflectionPass pf net cfg sig directResult (js_join newline texts)
               (generateSharedPrompt cb ca terms) tok w1) = ?direct"
  proof (cases r)
    case (Inl e)
    with k have "e = noValidKeyError"
      by (auto simp: getNextApiKey_def Let_def split: if_splits)
    with Inl k p1 p2 show ?thesis
      by (simp add: reflectionPass_def Let_def reflectionCatch_def not_isCancellation_noValidKeyError)
  next
    case (Inr key)
    with k p1 p2 w4 assms(7) resp show ?thesis
      by (simp add: reflectionPass_def Let_def fetch_def)
  qed
  with assms(1-4) show ?thesis
    by (simp add: translateBatch_def Let_def)
qed

theorem reflection_failure_falls_back_witness:
  "fst (translateBatch helloWorldPlatform
          (\<lambda>n. if n = 0 then helloWorldCompletion else ResponseNotOk 503 (Body (Some ''overloaded'')))
          (demoConfig ''sk-1'' True) (Some (\<lambda>n. False)) [''Hello'', ''World''] [] [] [] defaultMaxRetries session0)
     = Inr \<lparr>result_translations = helloWorldResult, tokensUsed = 42\<rparr>"
proof -
  let ?net = "\<lambda>n::nat. if n = 0 then helloWorldCompletion else ResponseNotOk 503 (Body (Some ''overloaded''))"
  let ?cfg = "demoConfig ''sk-1'' True"
  let ?sig = "Some (\<lambda>n::nat. False)"
  let ?loop = "directLoop helloWorldPlatform ?net ?cfg ?sig
           (generateDirectPrompt helloWorldPlatform (js_join newline [''Hello'', ''World''])
              (generateSharedPrompt [] [] []) (sourceLanguage ?cfg) (targetLanguage ?cfg))
           defaultMaxRetries 1 None 0 session0"
  have "fst ?loop = Inr (None, 42, helloWorldResult)"
    by code_simp
  then have d: "?loop = (Inr (None, 42, helloWorldResult), snd ?loop)"
    by (metis prod.collapse)
  have fc: "fetchCount (snd ?loop) = 1"
    by code_simp
  have a1: "apiKey ?cfg \<noteq> []" and a2: "enableReflection ?cfg"
    by (simp_all add: demoConfig_def)
  have a4: "helloWorldResult \<noteq> []"
    by (simp add: helloWorldResult_def)
  have a5: "notAbortedAt ?sig n" for n
    by (simp add: notAbortedAt_def)
  have a7: "?net (fetchCount (snd ?loop)) = ResponseNotOk 503 (Body (Some ''overloaded''))"
    unfolding fc by simp
  have a8: "\<forall>e. Body (Some ''overloaded'') = BodyFails e \<longrightarrow> \<not> isCancellation e"
    by simp
  show ?thesis
    by (rule reflection_failure_falls_back [OF a1 a2 d a4 a5 a5 a7 a8])
qed

lemma getNextApiKey_round_robin:
  assumes "apiKeyIndex w < length (validApiKeys apiKeyStr)"
  shows "getNextApiKey apiKeyStr w
           = (Inr (Some (validApiKeys apiKeyStr ! apiKeyIndex w)),
              w\<lparr>apiKeyIndex := (apiKeyIndex w + 1) mod length (validApiKeys apiKeyStr)\<rparr>)"
  using assms by (auto simp: getNextApiKey_def Let_def)

subsection \<open>The number of batches\<close>

lemma ceil_div_int:
  fixes a b :: int
  assumes "0 < b" and "0 \<le> a"
  shows "- (- a div b) = (a + b - 1) div b"
proof (cases "a mod b = 0")
  case True
  then have "a = (a div b) * b" by auto
  then have "(a + b - 1) div b = ((b - 1) + (a div b) * b) div b" by (simp add: algebra_simps)
  also have "\<dots> = (b - 1) div b + a div b"
    using assms(1) by (subst div_mult_self1) auto
  also have "(b - 1) div b = 0" using assms(1) by (simp add: div_pos_pos_trivial)
  finally show ?thesis using True assms(1) by (simp add: zdiv_zminus1_eq_if)
next
  case False
  have r: "0 < a mod b" "a mod b < b"
    using False assms(1) pos_mod_sign [of b a] pos_mod_bound [of b a] by linarith+
  have "a + b - 1 = (a mod b - 1) + (a div b + 1) * b"
    by (simp add: algebra_simps)
  then have "(a + b - 1) div b = ((a mod b - 1) + (a div b + 1) * b) div b" by (rule arg_cong)
  also have "\<dots> = (a mod b - 1) div b + (a div b + 1)"
    using assms(1) by (subst div_mult_self1) auto
  also have "(a mod b - 1) div b = 0" using r by (simp add: div_pos_pos_trivial)
  finally show ?thesis using False assms(1) by (simp add: zdiv_zminus1_eq_if)
qed

lemma totalBatches_code [code]:
  "totalBatches es bs = (if bs = 0 then 0 else (length es + bs - 1) div bs)"
proof (cases "bs = 0")
  case True
  then show ?thesis by (simp add: totalBatches_def)
next
  case False
  have "\<lceil>real (length es) / real bs\<rceil> = \<lceil>(of_int (int (length es)) :: real) / of_int (int bs)\<rceil>" by simp
  also have "\<dots> = - (- int (length es) div int bs)"
    by (rule ceiling_divide_eq_div)
  also have "\<dots> = (int (length es) + int bs - 1) div int bs"
    using False by (intro ceil_div_int) auto
  also have "\<dots> = int ((length es + bs - 1) div bs)"
    using False by (simp add: zdiv_int of_nat_diff)
  finally show ?thesis using False by (simp add: totalBatches_def)
qed

subsection \<open>Requests of a run\<close>

lemma validApiKeys_sample: "validApiKeys ''sk-1'' = [''sk-1'']"
  by code_simp

lemma helloEnv_fields:
  "env_net helloEnv = (\<lambda>n. helloWorldCompletion)" "env_signal helloEnv = (\<lambda>n. False)"
  "env_storage helloEnv = (\<lambda>n. None)" "env_newTaskId helloEnv = ''task_run''"
  "env_now helloEnv = 1700000000000"
  by (simp_all add: helloEnv_def)

lemma translateBatch_sample:
  assumes "apiKeyIndex w = 0"
  shows "\<exists>w1. translateBatch helloWorldPlatform (\<lambda>n. helloWorldCompletion) (demoConfig ''sk-1'' False)
                 (Some (\<lambda>n. False)) texts ctxBefore ctxAfter terms defaultMaxRetries w
               = (Inr \<lparr>result_translations = helloWorldResult, tokensUsed = 42\<rparr>, w1)
             \<and> events w1 = events w @ [RateLimiterWait,
                   FetchCall ''Bearer sk-1''
                     (directPromptFor helloWorldPlatform (demoConfig ''sk-1'' False) texts ctxBefore ctxAfter terms)]
             \<and> apiKeyIndex w1 = 0"
  using assms unfolding translateBatch_def
  by (subst directLoop.simps)
     (simp add: defaultMaxRetries_def
      directAttempt_def pollSignal_def getNextApiKey_def validApiKeys_sample fetch_def bearer_def
      directResponse_def helloWorldCompletion_def helloWorldPlatform_def asciiPlatform_def
      helloWorldResult_def usedTokens_def firstContent_def emit_def directPromptFor_def
      demoConfig_def Let_def)

lemma translateFileBatch_sample:
  assumes "apiKeyIndex w = 0" and "fc_config fc = demoConfig ''sk-1'' False"
    and "env_net env = (\<lambda>n. helloWorldCompletion)" and "env_signal env = (\<lambda>n. False)"
  shows "\<exists>w1. translateFileBatch helloWorldPlatform env fc file terms i (s, w)
               = (None,
                  updateBatchProgress fc file i (slice (file_entries file) i (i + 2))
                    \<lparr>result_translations = helloWorldResult, tokensUsed = 42\<rparr>
                    (updateBatchEntries fc file (slice (file_entries file) i (i + 2)) helloWorldResult s),
                  w1)
             \<and> events w1 = events w @ [RateLimiterWait,
                   FetchCall ''Bearer sk-1''
                     (directPromptFor helloWorldPlatform (demoConfig ''sk-1'' False)
                        (map entry_text (slice (file_entries file) i (i + 2)))
                        (getPreviousEntries (demoConfig ''sk-1'' False) (file_entries file) i)
                        (getNextEntries (demoConfig ''sk-1'' False) (file_entries file)
                           (i + length (slice (file_entries file) i (i + 2))))
                        terms)]
             \<and> apiKeyIndex w1 = 0"
proof -
  have bs: "effectiveBatchSize (demoConfig ''sk-1'' False) = 2"
    by (simp add: effectiveBatchSize_def demoConfig_def)
  obtain w1 where t: "translateBatch helloWorldPlatform (\<lambda>n. helloWorldCompletion) (demoConfig ''sk-1'' False)
        (Some (\<lambda>n. False)) (map entry_text (slice (file_entries file) i (i + 2)))
        (getPreviousEntries (demoConfig ''sk-1'' False) (file_entries file) i)
        (getNextEntries (demoConfig ''sk-1'' False) (file_entries file)
           (i + length (slice (file_entries file) i (i + 2))))
        terms defaultMaxRetries w
      = (Inr \<lparr>result_translations = helloWorldResult, tokensUsed = 42\<rparr>, w1)"
    and ev: "events w1 = events w @ [RateLimiterWait,
                   FetchCall ''Bearer sk-1''
                     (directPromptFor helloWorldPlatform (demoConfig ''sk-1'' False)
                        (map entry_text (slice (file_entries file) i (i + 2)))
                        (getPreviousEntries (demoConfig ''sk-1'' False) (file_entries file) i)
                        (getNextEntries (demoConfig ''sk-1'' False) (file_entries file)
                           (i + length (slice (file_entries file) i (i + 2))))
                        terms)]"
    and k: "apiKeyIndex w1 = 0"
    using translateBatch_sample [OF assms(1)] by blast
  have "translateFileBatch helloWorldPlatform env fc file terms i (s, w)
               = (None,
                  updateBatchProgress fc file i (slice (file_entries file) i (i + 2))
                    \<lparr>result_translations = helloWorldResult, tokensUsed = 42\<rparr>
                    (updateBatchEntries fc file (slice (file_entries file) i (i + 2)) helloWorldResult s),
                  w1)"
    using t unfolding translateFileBatch_def
    by (simp add: assms(2,3,4) bs Let_def)
  with ev k show ?thesis by blast
qed

lemma batch_tasks_persistBatchTasks: "batch_tasks (snd (persistBatchTasks wr s)) = batch_tasks s"
  by (simp add: persistBatchTasks_def split: option.splits)

lemma batch_tasks_persistHistory: "batch_tasks (snd (persistHistory wr s)) = batch_tasks s"
  by (simp add: persistHistory_def split: option.splits)

lemma batch_tasks_progress:
  "batch_tasks (snd (updateTaskTranslationProgress wr s tid u))
     = batch_tasks (updateTaskTranslationProgressInMemory s tid u)"
  by (simp add: updateTaskTranslationProgress_def updateTaskTranslationProgressInMemory_def
      batch_tasks_persistBatchTasks split: option.splits)

lemma batch_tasks_completeTranslation:
  "batch_tasks (fst (completeTranslation env tid (s, w)))
     = (case getTaskById s tid of
          None \<Rightarrow> batch_tasks s
        | Some task \<Rightarrow>
            batch_tasks
              (updateTaskTranslationProgressInMemory
                 (updateTaskTranslationProgressInMemory s tid
                    \<lparr>upd_completed = None, upd_total = None,
                     upd_tokens = Some (tokens (translation_progress task)), upd_status = Some Completed\<rparr>)
                 tid
                 \<lparr>upd_completed = None, upd_total = None,
                  upd_tokens = Some (tokens (translation_progress task)), upd_status = Some Completed\<rparr>))"
  by (simp add: completeTranslation_def storageWrite_def batch_tasks_progress Let_def
      split: option.splits prod.splits)

lemma batch_tasks_saveFileHistory:
  "batch_tasks (fst (saveFileHistory env file (s, w))) = batch_tasks s"
  by (simp add: saveFileHistory_def storageWrite_def addHistoryEntry_def batch_tasks_persistHistory
      split: option.splits prod.splits)

lemma batch_tasks_persistAfterRun:
  "batch_tasks (fst (persistAfterRun env (s, w))) = batch_tasks s"
  by (simp add: persistAfterRun_def storageWrite_def forcePersistAllData_def persistBatchTasks_def
      persistHistory_def split: option.splits prod.splits)

lemma storageWrite_session:
  "storageWrite env w = (r, w1) \<Longrightarrow>
     events w1 = events w \<and> fetchCount w1 = fetchCount w \<and> apiKeyIndex w1 = apiKeyIndex w"
  by (auto simp: storageWrite_def)

lemma completeTranslation_session:
  "completeTranslation env tid (s, w) = (s1, w1) \<Longrightarrow> events w1 = events w \<and> fetchCount w1 = fetchCount w"
  by (auto simp: completeTranslation_def storageWrite_def Let_def split: option.splits)

lemma saveFileHistory_session:
  "saveFileHistory env file (s, w) = (s1, w1) \<Longrightarrow> events w1 = events w \<and> fetchCount w1 = fetchCount w"
  by (auto simp: saveFileHistory_def storageWrite_def split: option.splits if_splits)

lemma persistAfterRun_session:
  "persistAfterRun env (s, w) = (s1, w1) \<Longrightarrow> events w1 = events w \<and> fetchCount w1 = fetchCount w"
  by (auto simp: persistAfterRun_def storageWrite_def split: prod.splits)

lemma batchLoop_end:
  "length (file_entries file) \<le> i \<Longrightarrow> batchLoop pf env fc file terms i (s, w) = (None, s, w)"
  by (subst batchLoop.simps) simp

lemma batchLoop_step:
  assumes "i < length (file_entries file)"
    and "translateFileBatch pf env fc file terms i (s, w) = (None, s1, w1)"
  shows "batchLoop pf env fc file terms i (s, w)
           = batchLoop pf env fc file terms (i + effectiveBatchSize (fc_config fc)) (s1, w1)"
  using assms by (subst batchLoop.simps) simp

lemma run_after_loop:
  assumes "batchLoop pf env fc file
             (js_join newline (map (\<lambda>t. original t @ '' -> '' @ translation t)
                (getRelevantTerms pf (fc_terms fc) (file_name file) [] [])))
             0 sw = (None, s1, w1)"
  shows "batch_tasks (fst (handleStartTranslation pf env fc file sw))
           = batch_tasks (fst (completeTranslation env (file_currentTaskId file) (s1, w1)))"
    and "events (snd (handleStartTranslation pf env fc file sw)) = events w1"
proof -
  obtain s2 w2 where c: "completeTranslation env (file_currentTaskId file) (s1, w1) = (s2, w2)"
    by (cases "completeTranslation env (file_currentTaskId file) (s1, w1)")
  obtain s3 w3 where h: "saveFileHistory env file (s2, w2) = (s3, w3)"
    by (cases "saveFileHistory env file (s2, w2)")
  obtain s4 w4 where p: "persistAfterRun env (s3, w3) = (s4, w4)"
    by (cases "persistAfterRun env (s3, w3)")
  have run: "handleStartTranslation pf env fc file sw = (s4, w4)"
    using assms by (simp add: handleStartTranslation_def Let_def c h p)
  have "batch_tasks s4 = batch_tasks s3"
    using batch_tasks_persistAfterRun [of env s3 w3] p by simp
  also have "\<dots> = batch_tasks s2"
    using batch_tasks_saveFileHistory [of env "file" s2 w2] h by simp
  finally show "batch_tasks (fst (handleStartTranslation pf env fc file sw))
           = batch_tasks (fst (completeTranslation env (file_currentTaskId file) (s1, w1)))"
    by (simp add: run c)
  have "events w4 = events w3"
    using persistAfterRun_session [OF p] by simp
  also have "\<dots> = events w2"
    using saveFileHistory_session [OF h] by simp
  also have "\<dots> = events w1"
    using completeTranslation_session [OF c] by simp
  finally show "events (snd (handleStartTranslation pf env fc file sw)) = events w1"
    by (simp add: run)
qed

subsection \<open>The run of the two entries\<close>

lemma helloFile_fields:
  "file_entries helloFile = helloEntries" "file_currentTaskId helloFile = ''task_file''"
  "file_name helloFile = ''a.srt''" "file_id helloFile = ''file_1''"
  by (simp_all add: helloFile_def)

lemma helloFileClosure_fields:
  "fc_config helloFileClosure = demoConfig ''sk-1'' False" "fc_terms helloFileClosure = []"
  "fc_files helloFileClosure = [helloFile]" "fc_currentTaskId helloFileClosure = []"
  by (simp_all add: helloFileClosure_def)

lemma effectiveBatchSize_sample: "effectiveBatchSize (demoConfig ''sk-1'' False) = 2"
  by (simp add: effectiveBatchSize_def demoConfig_def)

lemma hello_entries_written:
  "updateBatchEntries helloFileClosure helloFile (slice helloEntries 0 2) helloWorldResult helloStore
     = \<lparr>batch_tasks = [helloTask helloDone \<lparr>completed = 2, total = 2, tokens = 0, status = Idle\<rparr>],
        translation_history = [],
        stored_batch_tasks = Some [demoTask ''task_file'' helloEntries 0], stored_history = None\<rparr>"
  by code_simp

lemma hello_progress_written:
  "updateBatchProgress helloFileClosure helloFile 0 (slice helloEntries 0 2)
       \<lparr>result_translations = helloWorldResult, tokensUsed = 42\<rparr>
       \<lparr>batch_tasks = [helloTask helloDone \<lparr>completed = 2, total = 2, tokens = 0, status = Idle\<rparr>],
        translation_history = [],
        stored_batch_tasks = Some [demoTask ''task_file'' helloEntries 0], stored_history = None\<rparr>
     = \<lparr>batch_tasks = [helloTask helloDone \<lparr>completed = 2, total = 2, tokens = 42, status = Translating\<rparr>],
        translation_history = [],
        stored_batch_tasks = Some [demoTask ''task_file'' helloEntries 0], stored_history = None\<rparr>"
  by code_simp

lemma hello_completed:
  "batch_tasks (fst (completeTranslation env ''task_file''
       (\<lparr>batch_tasks = [helloTask helloDone \<lparr>completed = 2, total = 2, tokens = 42, status = Translating\<rparr>],
         translation_history = [],
         stored_batch_tasks = Some [demoTask ''task_file'' helloEntries 0], stored_history = None\<rparr>, w)))
     = [helloTask helloDone \<lparr>completed = 2, total = 2, tokens = 42, status = Completed\<rparr>]"
  unfolding batch_tasks_completeTranslation
  by (simp add: getTaskById_def helloTask_def updateTaskTranslationProgressInMemory_def replaceTask_def
      mergeProgress_def)

text \<open>
  Claim C2.  The run that the start button starts on the file with the entries \<open>Hello\<close> and
  \<open>World\<close>, with a batch size of two, no reflection, and a service that answers every call with
  the two translations and 42 tokens, ends with both entries of the task of the file translated
  and with the progress \<open>completed = 2\<close>, \<open>tokens = 42\<close>, \<open>status = completed\<close>, whatever the
  outcomes of the writes to the durable storage and the clock are.  (The thread count is not
  read by this run.)
\<close>

theorem hello_world_run:
  "taskOutcome
     (handleStartTranslation helloWorldPlatform (helloEnv\<lparr>env_storage := storage, env_now := now\<rparr>)
        helloFileClosure helloFile (helloStore, session0))
     ''task_file''
     = Some ([Some nihao, Some shijie], \<lparr>completed = 2, total = 2, tokens = 42, status = Completed\<rparr>)"
proof -
  let ?env = "helloEnv\<lparr>env_storage := storage, env_now := now\<rparr>"
  let ?S = "\<lparr>batch_tasks = [helloTask helloDone \<lparr>completed = 2, total = 2, tokens = 42, status = Translating\<rparr>],
             translation_history = [],
             stored_batch_tasks = Some [demoTask ''task_file'' helloEntries 0], stored_history = None\<rparr>"
  have env: "env_net ?env = (\<lambda>n. helloWorldCompletion)" "env_signal ?env = (\<lambda>n. False)"
    by (simp_all add: helloEnv_def)
  have len: "length (file_entries helloFile) = 2"
    by (simp add: helloFile_def helloEntries_def)
  obtain w1 where step: "translateFileBatch helloWorldPlatform ?env helloFileClosure helloFile [] 0 (helloStore, session0)
      = (None,
         updateBatchProgress helloFileClosure helloFile 0 (slice (file_entries helloFile) 0 (0 + 2))
           \<lparr>result_translations = helloWorldResult, tokensUsed = 42\<rparr>
           (updateBatchEntries helloFileClosure helloFile (slice (file_entries helloFile) 0 (0 + 2))
              helloWorldResult helloStore),
         w1)"
    using translateFileBatch_sample [of session0 helloFileClosure ?env helloFile "[]" 0 helloStore] env
    by (auto simp: session0_def helloFileClosure_fields)
  have step': "translateFileBatch helloWorldPlatform ?env helloFileClosure helloFile [] 0 (helloStore, session0)
      = (None, ?S, w1)"
    by (rule step [unfolded helloFile_fields add_0 hello_entries_written hello_progress_written])
  have "batchLoop helloWorldPlatform ?env helloFileClosure helloFile [] 0 (helloStore, session0)
          = batchLoop helloWorldPlatform ?env helloFileClosure helloFile []
              (0 + effectiveBatchSize (fc_config helloFileClosure)) (?S, w1)"
    by (rule batchLoop_step) (simp_all add: len step')
  also have "\<dots> = (None, ?S, w1)"
    by (rule batchLoop_end) (simp add: len helloFileClosure_fields effectiveBatchSize_sample)
  finally have loop: "batchLoop helloWorldPlatform ?env helloFileClosure helloFile
             (js_join newline (map (\<lambda>t. original t @ '' -> '' @ translation t)
                (getRelevantTerms helloWorldPlatform (fc_terms helloFileClosure) (file_name helloFile) [] [])))
             0 (helloStore, session0) = (None, ?S, w1)"
    by (simp add: helloFileClosure_fields getRelevantTerms_def)
  have "batch_tasks (fst (handleStartTranslation helloWorldPlatform ?env helloFileClosure helloFile (helloStore, session0)))
          = [helloTask helloDone \<lparr>completed = 2, total = 2, tokens = 42, status = Completed\<rparr>]"
    unfolding run_after_loop(1) [OF loop] helloFile_fields by (rule hello_completed)
  then show ?thesis
    by (simp add: taskOutcome_def getTaskById_def helloTask_def helloDone_def demoEntry_def)
qed

subsection \<open>Entries that a run sends and entries that it leaves out\<close>

lemma partFile_fields:
  "file_entries partFile = partEntries" "file_currentTaskId partFile = ''task_file''"
  "file_name partFile = ''a.srt''"
  by (simp_all add: partFile_def helloFile_def)

lemma partFileClosure_fields:
  "fc_config partFileClosure = demoConfig ''sk-1'' False" "fc_terms partFileClosure = []"
  by (simp_all add: partFileClosure_def helloFileClosure_def)

lemma part_first_batch:
  "map entry_text (slice partEntries 0 2) = [''a'', ''b'']"
  "getPreviousEntries (demoConfig ''sk-1'' False) partEntries 0 = []"
  "getNextEntries (demoConfig ''sk-1'' False) partEntries (length (slice partEntries 0 2)) = ''c''"
  by code_simp+

lemma part_second_batch:
  "map entry_text (slice partEntries 2 4) = [''c'']"
  "getPreviousEntries (demoConfig ''sk-1'' False) partEntries 2 = ''a'' @ newline @ ''b''"
  "getNextEntries (demoConfig ''sk-1'' False) partEntries (2 + length (slice partEntries 2 4)) = []"
  by code_simp+

lemma part_run_requests:
  "fetchCalls (snd (handleStartTranslation helloWorldPlatform helloEnv partFileClosure partFile
                      (partStore, session0)))
     = [FetchCall ''Bearer sk-1''
          (directPromptFor helloWorldPlatform (demoConfig ''sk-1'' False) [''a'', ''b''] [] ''c'' []),
        FetchCall ''Bearer sk-1''
          (directPromptFor helloWorldPlatform (demoConfig ''sk-1'' False) [''c'']
             (''a'' @ newline @ ''b'') [] [])]"
proof -
  have len: "length (file_entries partFile) = 3"
    by (simp add: partFile_fields partEntries_def)
  have four: "(2::nat) + 2 = 4"
    by simp
  obtain s1 w1 where step1: "translateFileBatch helloWorldPlatform helloEnv partFileClosure partFile [] 0
        (partStore, session0) = (None, s1, w1)"
    and ev1: "events w1 = events session0 @ [RateLimiterWait,
        FetchCall ''Bearer sk-1''
          (directPromptFor helloWorldPlatform (demoConfig ''sk-1'' False)
             (map entry_text (slice (file_entries partFile) 0 (0 + 2)))
             (getPreviousEntries (demoConfig ''sk-1'' False) (file_entries partFile) 0)
             (getNextEntries (demoConfig ''sk-1'' False) (file_entries partFile)
                (0 + length (slice (file_entries partFile) 0 (0 + 2))))
             [])]"
    and k1: "apiKeyIndex w1 = 0"
    using translateFileBatch_sample [of session0 partFileClosure helloEnv partFile "[]" 0 partStore]
    by (auto simp: session0_def partFileClosure_fields helloEnv_fields)
  obtain s2 w2 where step2: "translateFileBatch helloWorldPlatform helloEnv partFileClosure partFile [] 2
        (s1, w1) = (None, s2, w2)"
    and ev2: "events w2 = events w1 @ [RateLimiterWait,
        FetchCall ''Bearer sk-1''
          (directPromptFor helloWorldPlatform (demoConfig ''sk-1'' False)
             (map entry_text (slice (file_entries partFile) 2 (2 + 2)))
             (getPreviousEntries (demoConfig ''sk-1'' False) (file_entries partFile) 2)
             (getNextEntries (demoConfig ''sk-1'' False) (file_entries partFile)
                (2 + length (slice (file_entries partFile) 2 (2 + 2))))
             [])]"
    using translateFileBatch_sample [of w1 partFileClosure helloEnv partFile "[]" 2 s1] k1
    by (auto simp: partFileClosure_fields helloEnv_fields)
  note ev1' = ev1 [unfolded partFile_fields add_0 part_first_batch]
  note ev2' = ev2 [unfolded partFile_fields four part_second_batch]
  have "batchLoop helloWorldPlatform helloEnv partFileClosure partFile [] 0 (partStore, session0)
          = batchLoop helloWorldPlatform helloEnv partFileClosure partFile []
              (0 + effectiveBatchSize (fc_config partFileClosure)) (s1, w1)"
    by (rule batchLoop_step) (simp_all add: len step1)
  also have "\<dots> = batchLoop helloWorldPlatform helloEnv partFileClosure partFile [] 2 (s1, w1)"
    by (simp only: partFileClosure_fields effectiveBatchSize_sample add_0)
  also have "\<dots> = batchLoop helloWorldPlatform helloEnv partFileClosure partFile []
              (2 + effectiveBatchSize (fc_config partFileClosure)) (s2, w2)"
    by (rule batchLoop_step) (simp_all add: len step2)
  also have "\<dots> = (None, s2, w2)"
    by (rule batchLoop_end) (simp add: len partFileClosure_fields effectiveBatchSize_sample)
  finally have loop: "batchLoop helloWorldPlatform helloEnv partFileClosure partFile
             (js_join newline (map (\<lambda>t. original t @ '' -> '' @ translation t)
                (getRelevantTerms helloWorldPlatform (fc_terms partFileClosure) (file_name partFile) [] [])))
             0 (partStore, session0) = (None, s2, w2)"
    by (simp add: partFileClosure_fields getRelevantTerms_def)
  have "events (snd (handleStartTranslation helloWorldPlatform helloEnv partFileClosure partFile
                       (partStore, session0))) = events w2"
    by (rule run_after_loop(2) [OF loop])
  then show ?thesis
    unfolding fetchCalls_def ev2' ev1' by (simp add: session0_def)
qed

lemma batchGroups_Nil: "batchGroups n [] = []"
  by (simp add: batchGroups.simps)

lemma saveHistory_session:
  "saveHistory env cl (s, w) = (s1, w1) \<Longrightarrow> events w1 = events w \<and> fetchCount w1 = fetchCount w"
  by (auto simp: saveHistory_def storageWrite_def split: option.splits if_splits)

lemma run_without_batches:
  assumes "allBatches pf cl = []"
  shows "\<exists>r. onStartTranslation pf env cl (s, w) = Some r \<and> fetchCalls (snd r) = fetchCalls w"
proof -
  obtain wr w1 where sw: "storageWrite env w = (wr, w1)"
    by (cases "storageWrite env w")
  have w1: "events w1 = events w"
    using storageWrite_session [OF sw] by simp
  obtain e s1 where c: "createNewTask wr (env_newTaskId env) s (cl_filename cl) (cl_entries cl) 0 = (e, s1)"
    by (cases "createNewTask wr (env_newTaskId env) s (cl_filename cl) (cl_entries cl) 0")
  let ?s4 = "updateProgress
               (updateProgress s1 (countTranslated (cl_entries cl)) (length (cl_entries cl)) Direct
                  (env_newTaskId env) (cl_currentTaskId cl) None)
               (countTranslated (cl_entries cl)) (length (cl_entries cl)) Done
               (env_newTaskId env) (cl_currentTaskId cl) None"
  obtain s5 w5 where ct: "completeTranslation env (env_newTaskId env) (?s4, emit (Sleep 100) w1) = (s5, w5)"
    by (cases "completeTranslation env (env_newTaskId env) (?s4, emit (Sleep 100) w1)")
  have w5: "events w5 = events w @ [Sleep 100]"
    using completeTranslation_session [OF ct] w1 by (simp add: emit_def)
  obtain s6 w6 where sh: "saveHistory env cl (s5, emit (Sleep 500) w5) = (s6, w6)"
    by (cases "saveHistory env cl (s5, emit (Sleep 500) w5)")
  have w6: "events w6 = events w @ [Sleep 100, Sleep 500]"
    using saveHistory_session [OF sh] w5 by (simp add: emit_def)
  have "onStartTranslation pf env cl (s, w)
          = (if length (cl_entries cl) = 0 then Some (s, w)
             else if apiKey (cl_config cl) = [] then Some (s, w)
             else (case e of Some err \<Rightarrow> Some (s1, w1) | None \<Rightarrow> Some (s6, w6)))"
    unfolding onStartTranslation_def
    by (simp add: sw c assms batchGroups_Nil ct sh Let_def split: option.splits cong: let_weak_cong)
  then show ?thesis
    using w1 w6 by (auto simp: fetchCalls_def split: option.splits)
qed

text \<open>
  Claim C1 says that a run considers \<open>ceil(N / B)\<close> batches, never sends an entry again whose
  \<open>translatedText\<close> is not empty, and sends nothing for a task whose entries are all translated.

  The run that the start button starts (\<open>handleStartTranslation\<close>) has no filter: for a file of
  three entries of which the first two are translated, with a batch size of two, the button is
  enabled and the run sends two requests, the first one with the texts \<open>a\<close> and \<open>b\<close> of the two
  translated entries.

  The run of \<open>TranslationControls\<close> filters every batch, but starts its loop at the batch index
  \<open>floor(c / B)\<close>, where \<open>c\<close> is the number of translated entries: for four entries of which the
  last two are translated, with a batch size of two, \<open>ceil(N / B)\<close> is two, the loop considers the
  batch index 1 only, no batch is left after the filter, and the run sends no request although
  the first two entries need a translation.
\<close>

theorem translated_resent_untranslated_skipped:
  "startButtonEnabled partFile
   \<and> map isTranslated (file_entries partFile) = [True, True, False]
   \<and> fetchCalls (snd (handleStartTranslation helloWorldPlatform helloEnv partFileClosure partFile
                        (partStore, session0)))
       = [FetchCall ''Bearer sk-1''
            (directPromptFor helloWorldPlatform (demoConfig ''sk-1'' False) [''a'', ''b''] [] ''c'' []),
          FetchCall ''Bearer sk-1''
            (directPromptFor helloWorldPlatform (demoConfig ''sk-1'' False) [''c'']
               (''a'' @ newline @ ''b'') [] [])]
   \<and> map needsTranslation gapEntries = [True, True, False, False]
   \<and> totalBatches gapEntries 2 = 2
   \<and> batchLoopIndices gapEntries 2 = [1]
   \<and> allBatches helloWorldPlatform gapClosure = []
   \<and> (\<exists>r. onStartTranslation helloWorldPlatform helloEnv gapClosure (gapStore, session0) = Some r
          \<and> fetchCalls (snd r) = [])"
proof -
  have a: "startButtonEnabled partFile"
    by code_simp
  have b: "map isTranslated (file_entries partFile) = [True, True, False]"
    by code_simp
  have c: "map needsTranslation gapEntries = [True, True, False, False]"
    by code_simp
  have d: "totalBatches gapEntries 2 = 2" "batchLoopIndices gapEntries 2 = [1]"
    by code_simp+
  have e: "allBatches helloWorldPlatform gapClosure = []"
    by code_simp
  have "\<exists>r. onStartTranslation helloWorldPlatform helloEnv gapClosure (gapStore, session0) = Some r
          \<and> fetchCalls (snd r) = fetchCalls session0"
    using e by (rule run_without_batches)
  then have f: "\<exists>r. onStartTranslation helloWorldPlatform helloEnv gapClosure (gapStore, session0) = Some r
          \<and> fetchCalls (snd r) = []"
    by (simp add: fetchCalls_def session0_def)
  from a b part_run_requests c d e f show ?thesis
    by blast
qed

end
